theory Spec2Isabelle
  imports Main "HOL-Library.Word"
begin

unbundle bit_operations_syntax

section \<open>Host values\<close>

text \<open>
  The values that cross the boundary of \<^verbatim>\<open>GNContext.cpp\<close>. A Number is kept at
  its integral values: the source reads a Number through \<^verbatim>\<open>Uint32Value()\<close> only,
  which reduces it modulo \<open>2 ^ 32\<close>. A function and a plain object are kept as
  an identity and a property list; a Buffer is its bytes.
\<close>

datatype jsval =
    JUndefined
  | JNull
  | JBool bool
  | JNumber int
  | JString string
  | JArray "jsval list"
  | JObject "(string \<times> jsval) list"
  | JFunction nat
  | JBuffer "8 word list"

fun IsNumber :: "jsval \<Rightarrow> bool" where
  "IsNumber (JNumber n) = True"
| "IsNumber v = False"

fun IsTrue :: "jsval \<Rightarrow> bool" where
  "IsTrue (JBool b) = b"
| "IsTrue v = False"

fun IsArray :: "jsval \<Rightarrow> bool" where
  "IsArray (JArray vs) = True"
| "IsArray v = False"

fun IsFunction :: "jsval \<Rightarrow> bool" where
  "IsFunction (JFunction f) = True"
| "IsFunction v = False"

fun IsObject :: "jsval \<Rightarrow> bool" where
  "IsObject (JArray vs) = True"
| "IsObject (JObject ps) = True"
| "IsObject (JFunction f) = True"
| "IsObject (JBuffer bs) = True"
| "IsObject v = False"

text \<open>
  \<^verbatim>\<open>Uint32Value()\<close>: the source calls it behind an \<^verbatim>\<open>IsNumber()\<close> test
  everywhere; the other values are given 0 here and never reached.
\<close>

fun Uint32Value :: "jsval \<Rightarrow> 32 word" where
  "Uint32Value (JNumber n) = word_of_int n"
| "Uint32Value v = 0"

text \<open>The elements of an Array; \<^verbatim>\<open>Handle<Array>::Cast\<close> is applied to Arrays only.\<close>

fun elements :: "jsval \<Rightarrow> jsval list" where
  "elements (JArray vs) = vs"
| "elements v = []"

text \<open>\<^verbatim>\<open>Array::Get(i)\<close>: an index past the end reads \<^verbatim>\<open>undefined\<close>.\<close>

definition Get :: "jsval list \<Rightarrow> nat \<Rightarrow> jsval" where
  "Get vs i = (if i < length vs then vs ! i else JUndefined)"

text \<open>
  \<^verbatim>\<open>args[i]\<close> of a native method: the index is a C \<^verbatim>\<open>int\<close>, and an index
  below 0 or past the last argument reads \<^verbatim>\<open>undefined\<close>.
\<close>

definition arg :: "jsval list \<Rightarrow> int \<Rightarrow> jsval" where
  "arg args i = (if 0 \<le> i \<and> i < int (length args) then args ! nat i else JUndefined)"

text \<open>\<^verbatim>\<open>makeErrorObj\<close>: an object with the two properties \<^verbatim>\<open>msg\<close> and \<^verbatim>\<open>code\<close>.\<close>

definition makeErrorObj :: "string \<Rightarrow> int \<Rightarrow> jsval" where
  "makeErrorObj m c = JObject [(''msg'', JString m), (''code'', JNumber c)]"

section \<open>Engine values and constants\<close>

text \<open>The constants of \<^verbatim>\<open>getdns.h\<close> that the source names.\<close>

definition GETDNS_RETURN_GOOD :: int where [simp]: "GETDNS_RETURN_GOOD = 0"
definition GETDNS_RETURN_GENERIC_ERROR :: int where [simp]: "GETDNS_RETURN_GENERIC_ERROR = 1"
definition GETDNS_RETURN_INVALID_PARAMETER :: int where [simp]: "GETDNS_RETURN_INVALID_PARAMETER = 311"
definition GETDNS_RESOLUTION_RECURSING :: "32 word" where [simp]: "GETDNS_RESOLUTION_RECURSING = 520"
definition GETDNS_RESOLUTION_STUB :: "32 word" where [simp]: "GETDNS_RESOLUTION_STUB = 521"
definition GETDNS_CALLBACK_COMPLETE :: int where [simp]: "GETDNS_CALLBACK_COMPLETE = 700"
definition GETDNS_EXTENSION_TRUE :: int where [simp]: "GETDNS_EXTENSION_TRUE = 1000"
definition GETDNS_EXTENSION_FALSE :: int where [simp]: "GETDNS_EXTENSION_FALSE = 1001"

text \<open>
  The engine's structured data: a dictionary is a list of named items, and what the
  source builds of it are byte strings (\<^verbatim>\<open>getdns_bindata\<close>), integers and lists.
\<close>

datatype getdns_item =
    t_dict "(string \<times> getdns_item) list"
  | t_list "getdns_item list"
  | t_int "32 word"
  | t_bindata "8 word list"

type_synonym getdns_dict = "(string \<times> getdns_item) list"
type_synonym getdns_list = "getdns_item list"

text \<open>The bytes of a C string, as \<^verbatim>\<open>getdns_dict_util_set_string\<close> stores them.\<close>

definition string_bytes :: "string \<Rightarrow> 8 word list" where
  "string_bytes s = map (\<lambda>c. of_nat (of_char c)) s"

text \<open>
  Setting a name of a dictionary replaces its item or adds it. On these values the
  engine's setters cannot fail; they return the status all the same, since the source
  tests it.
\<close>

fun dict_put :: "string \<Rightarrow> getdns_item \<Rightarrow> getdns_dict \<Rightarrow> getdns_dict" where
  "dict_put k v [] = [(k, v)]"
| "dict_put k v ((k', v') # d) = (if k' = k then (k, v) # d else (k', v') # dict_put k v d)"

definition getdns_dict_create :: "getdns_dict option" where
  "getdns_dict_create = Some []"

definition getdns_dict_util_set_string :: "getdns_dict \<Rightarrow> string \<Rightarrow> string \<Rightarrow> int \<times> getdns_dict" where
  "getdns_dict_util_set_string d k s = (GETDNS_RETURN_GOOD, dict_put k (t_bindata (string_bytes s)) d)"

definition getdns_dict_set_bindata :: "getdns_dict \<Rightarrow> string \<Rightarrow> 8 word list \<Rightarrow> int \<times> getdns_dict" where
  "getdns_dict_set_bindata d k bs = (GETDNS_RETURN_GOOD, dict_put k (t_bindata bs) d)"

definition getdns_dict_set_int :: "getdns_dict \<Rightarrow> string \<Rightarrow> 32 word \<Rightarrow> int \<times> getdns_dict" where
  "getdns_dict_set_int d k n = (GETDNS_RETURN_GOOD, dict_put k (t_int n) d)"

text \<open>
  \<^verbatim>\<open>getdns_list_set_dict(list, index, dict)\<close> stores a copy of the dictionary at
  an index up to the length of the list; the source always passes the length.
\<close>

definition getdns_list_set_dict :: "getdns_list \<Rightarrow> nat \<Rightarrow> getdns_dict \<Rightarrow> getdns_list" where
  "getdns_list_set_dict l i d =
     (if i < length l then l[i := t_dict d]
      else if i = length l then l @ [t_dict d]
      else l)"

section \<open>What the source calls and does not own\<close>

text \<open>
  The record a request hands to the engine as its user argument: the host callback.
  The pointer \<^verbatim>\<open>ctx\<close> of the C struct is the one context object of this model.
\<close>

record CallbackData =
  callback :: jsval

text \<open>
  The calls into the engine, each with its arguments. A context handle is a nullable
  pointer: \<open>None\<close> is \<^verbatim>\<open>NULL\<close>.
\<close>

datatype engine_call =
    getdns_context_set_dns_transport "nat option" "32 word"
  | getdns_context_set_resolution_type "nat option" "32 word"
  | getdns_context_set_upstream_recursive_servers "nat option" getdns_list
  | getdns_context_set_timeout "nat option" "32 word"
  | getdns_context_set_use_threads "nat option" int
  | getdns_context_set_return_dnssec_status "nat option" int
  | getdns_context_set_edns_extended_rcode "nat option" "8 word"
  | getdns_context_set_edns_version "nat option" "8 word"
  | getdns_context_set_edns_do_bit "nat option" "8 word"
  | getdns_context_set_limit_outstanding_queries "nat option" "16 word"
  | getdns_context_set_edns_maximum_udp_payload_size "nat option" "16 word"
  | getdns_context_destroy "nat option"
  | getdns_cancel_callback "nat option" "64 word"
  | getdns_general "nat option" string "16 word" "getdns_dict option" CallbackData
  | getdns_address "nat option" string "getdns_dict option" CallbackData
  | getdns_service "nat option" string "getdns_dict option" CallbackData
  | getdns_hostname "nat option" getdns_dict "getdns_dict option" CallbackData
  | getdns_dict_destroy "getdns_dict option"

text \<open>
  Everything the file calls without defining it is a field of one record, so that
  every theorem below holds for any C library, any host runtime and any engine:
  \<^item> \<open>pton4\<close>, \<open>pton6\<close>: what \<^verbatim>\<open>inet_pton\<close> accepts, as the address in network
    byte order (\<open>None\<close>: the text is not an address of that family);
  \<^item> \<open>ToString\<close>: the host's conversion of a value to text;
  \<^item> \<open>convertToJSObj\<close>, \<open>convertToDict\<close>: the converters of \<^verbatim>\<open>GNUtil\<close>;
  \<^item> \<open>status\<close>, \<open>transaction\<close>: the status an engine call returns and the
    transaction identifier it assigns;
  \<^item> \<open>throws\<close>: whether a host function raises when called with these arguments.
\<close>

record extern =
  pton4 :: "string \<Rightarrow> 32 word option"
  pton6 :: "string \<Rightarrow> 128 word option"
  ToString :: "jsval \<Rightarrow> string"
  convertToJSObj :: "getdns_dict option \<Rightarrow> jsval"
  convertToDict :: "jsval \<Rightarrow> getdns_dict option"
  status :: "engine_call \<Rightarrow> int"
  transaction :: "engine_call \<Rightarrow> 64 word"
  throws :: "jsval \<Rightarrow> jsval list \<Rightarrow> bool"

text \<open>
  What a native method leaves behind, in program order: an exception scheduled with
  \<^verbatim>\<open>NanThrowError\<close> or \<^verbatim>\<open>NanThrowTypeError\<close> (which returns to the C++ code:
  the statements after it still run), a call of a host function (\<^verbatim>\<open>Call\<close> and
  \<^verbatim>\<open>NanMakeCallback\<close> alike), a call into the engine, the allocation and the two
  deletions of a \<^verbatim>\<open>CallbackData\<close>, \<^verbatim>\<open>Ref()\<close> and \<^verbatim>\<open>Unref()\<close> on the
  context object, and \<^verbatim>\<open>node::FatalException\<close>.
\<close>

datatype exn = Error | TypeError

datatype event =
    Throw exn string
  | Call jsval "jsval list"
  | Engine engine_call
  | New_CallbackData CallbackData
  | Ref
  | Unref
  | Delete_callback CallbackData
  | Delete_data CallbackData
  | FatalException

section \<open>Addresses\<close>

text \<open>
  \<^verbatim>\<open>inet_pton(af, src, dst)\<close> returns 1 and writes the 4 or 16 bytes of the address
  to the front of \<open>dst\<close>, or returns 0 and leaves \<open>dst\<close> alone.
\<close>

datatype af = AF_INET | AF_INET6

definition in_addr_bytes :: "32 word \<Rightarrow> 8 word list" where
  "in_addr_bytes a = map (\<lambda>i. ucast (drop_bit (8 * (3 - i)) a)) [0..<4]"

definition in6_addr_bytes :: "128 word \<Rightarrow> 8 word list" where
  "in6_addr_bytes a = map (\<lambda>i. ucast (drop_bit (8 * (15 - i)) a)) [0..<16]"

fun inet_pton :: "extern \<Rightarrow> af \<Rightarrow> string \<Rightarrow> 8 word list \<Rightarrow> int \<times> 8 word list" where
  "inet_pton x AF_INET src dst =
     (case pton4 x src of
        Some a \<Rightarrow> (1, in_addr_bytes a @ drop 4 dst)
      | None \<Rightarrow> (0, dst))"
| "inet_pton x AF_INET6 src dst =
     (case pton6 x src of
        Some a \<Rightarrow> (1, in6_addr_bytes a @ drop 16 dst)
      | None \<Rightarrow> (0, dst))"

text \<open>
  \<^verbatim>\<open>getdns_util_create_ip\<close>. The argument is a nullable C string; the buffer
  \<^verbatim>\<open>addrBuff\<close> starts with 16 bytes that are never read before they are written.
\<close>

definition getdns_util_create_ip :: "extern \<Rightarrow> string option \<Rightarrow> getdns_dict option" where
  "getdns_util_create_ip x ip_opt =
     (case ip_opt of
        None \<Rightarrow> None
      | Some ip \<Rightarrow>
          (let addrBuff0 = replicate 16 (0 :: 8 word);
               (r4, addrBuff4) = inet_pton x AF_INET ip addrBuff0;
               (r6, addrBuff6) = (if r4 = 1 then (0, addrBuff4) else inet_pton x AF_INET6 ip addrBuff4);
               addrBuff = addrBuff6;
               addrSize = (if r4 = 1 then 4 else if r6 = 1 then 16 else (0 :: nat))
           in if addrSize = 0 then None
              else (case getdns_dict_create of
                      None \<Rightarrow> None
                    | Some result0 \<Rightarrow>
                        (let ipType = (if addrSize = 4 then ''IPv4'' else ''IPv6'');
                             (r, result1) = getdns_dict_util_set_string result0 ''address_type'' ipType
                         in if r \<noteq> GETDNS_RETURN_GOOD then None
                            else (let ipData = take addrSize addrBuff;
                                      (r', result2) = getdns_dict_set_bindata result1 ''address_data'' ipData
                                  in if r' \<noteq> GETDNS_RETURN_GOOD then None
                                     else Some result2)))))"

section \<open>The option setters\<close>

definition setTransport :: "nat option \<Rightarrow> jsval \<Rightarrow> event list" where
  "setTransport context opt =
     (if IsNumber opt
      then (let num = Uint32Value opt in [Engine (getdns_context_set_dns_transport context num)])
      else [])"

definition setStub :: "nat option \<Rightarrow> jsval \<Rightarrow> event list" where
  "setStub context opt =
     (if IsTrue opt
      then [Engine (getdns_context_set_resolution_type context GETDNS_RESOLUTION_STUB)]
      else [Engine (getdns_context_set_resolution_type context GETDNS_RESOLUTION_RECURSING)])"

definition setResolutionType :: "nat option \<Rightarrow> jsval \<Rightarrow> event list" where
  "setResolutionType context opt =
     (if IsNumber opt
      then (let num = Uint32Value opt in [Engine (getdns_context_set_resolution_type context num)])
      else [])"

text \<open>
  The value of \<^verbatim>\<open>ipDict\<close> that one pass of the loop of \<^verbatim>\<open>setUpstreams\<close>
  computes from the element \<^verbatim>\<open>ipOrTuple\<close>; \<open>None\<close> is \<^verbatim>\<open>NULL\<close>.
\<close>

definition ipDict_of :: "extern \<Rightarrow> jsval \<Rightarrow> getdns_dict option" where
  "ipDict_of x ipOrTuple =
     (if IsArray ipOrTuple
      then (let tuple = elements ipOrTuple
            in if length tuple > 0
               then (case getdns_util_create_ip x (Some (ToString x (Get tuple 0))) of
                       None \<Rightarrow> None
                     | Some ipDict \<Rightarrow>
                         (if length tuple > 1 \<and> IsNumber (Get tuple 1)
                          then (let port = Uint32Value (Get tuple 1)
                                in Some (snd (getdns_dict_set_int ipDict ''port'' port)))
                          else Some ipDict))
               else None)
      else getdns_util_create_ip x (Some (ToString x ipOrTuple)))"

text \<open>
  The loop of \<^verbatim>\<open>setUpstreams\<close> over the elements that are left, with the list
  built so far. An element without a dictionary schedules a type error, and the
  loop goes on with the next element: nothing follows \<^verbatim>\<open>NanThrowTypeError\<close>
  in that branch.
\<close>

fun upstreams_loop :: "extern \<Rightarrow> jsval list \<Rightarrow> getdns_list \<Rightarrow> getdns_list \<times> event list" where
  "upstreams_loop x [] upstreams = (upstreams, [])"
| "upstreams_loop x (ipOrTuple # values) upstreams =
     (case ipDict_of x ipOrTuple of
        Some ipDict \<Rightarrow>
          (let len = length upstreams
           in upstreams_loop x values (getdns_list_set_dict upstreams len ipDict))
      | None \<Rightarrow>
          (let msg = ''Upstream value is invalid: '' @ ToString x ipOrTuple;
               (upstreams', evs) = upstreams_loop x values upstreams
           in (upstreams', Throw TypeError msg # evs)))"

definition setUpstreams :: "extern \<Rightarrow> nat option \<Rightarrow> jsval \<Rightarrow> event list" where
  "setUpstreams x context opt =
     (if IsArray opt
      then (let (upstreams, evs) = upstreams_loop x (elements opt) [];
                call = getdns_context_set_upstream_recursive_servers context upstreams;
                r = status x call
            in evs @ [Engine call] @
               (if r \<noteq> GETDNS_RETURN_GOOD then [Throw TypeError ''Failed to set upstreams.''] else []))
      else [])"

definition setTimeout :: "nat option \<Rightarrow> jsval \<Rightarrow> event list" where
  "setTimeout context opt =
     (if IsNumber opt
      then (let num = Uint32Value opt in [Engine (getdns_context_set_timeout context num)])
      else [])"

definition setUseThreads :: "nat option \<Rightarrow> jsval \<Rightarrow> event list" where
  "setUseThreads context opt =
     (let val = (if IsTrue opt then 1 else 0)
      in [Engine (getdns_context_set_use_threads context val)])"

definition setReturnDnssecStatus :: "nat option \<Rightarrow> jsval \<Rightarrow> event list" where
  "setReturnDnssecStatus context opt =
     (let val = (if IsTrue opt then GETDNS_EXTENSION_TRUE else GETDNS_EXTENSION_FALSE)
      in [Engine (getdns_context_set_return_dnssec_status context val)])"

section \<open>The dispatch tables\<close>

type_synonym context_setter = "extern \<Rightarrow> nat option \<Rightarrow> jsval \<Rightarrow> event list"
type_synonym uint8_setter = "nat option \<Rightarrow> 8 word \<Rightarrow> engine_call"
type_synonym uint16_setter = "nat option \<Rightarrow> 16 word \<Rightarrow> engine_call"

definition SETTERS :: "(string \<times> context_setter) list" where
  "SETTERS =
     [(''stub'', \<lambda>x. setStub),
      (''upstreams'', setUpstreams),
      (''upstream_recursive_servers'', setUpstreams),
      (''timeout'', \<lambda>x. setTimeout),
      (''use_threads'', \<lambda>x. setUseThreads),
      (''return_dnssec_status'', \<lambda>x. setReturnDnssecStatus),
      (''dns_transport'', \<lambda>x. setTransport),
      (''resolution_type'', \<lambda>x. setResolutionType)]"

definition UINT8_OPTION_SETTERS :: "(string \<times> uint8_setter) list" where
  "UINT8_OPTION_SETTERS =
     [(''edns_extended_rcode'', getdns_context_set_edns_extended_rcode),
      (''edns_version'', getdns_context_set_edns_version),
      (''edns_do_bit'', getdns_context_set_edns_do_bit)]"

definition UINT16_OPTION_SETTERS :: "(string \<times> uint16_setter) list" where
  "UINT16_OPTION_SETTERS =
     [(''limit_outstanding_queries'', getdns_context_set_limit_outstanding_queries),
      (''edns_maximum_udp_payloadSize'', getdns_context_set_edns_maximum_udp_payload_size)]"

section \<open>The context object and its methods\<close>

text \<open>
  The wrapped object: its one field, \<^verbatim>\<open>context_\<close> in the source, is the
  engine's context handle. The methods are modelled on a receiver that wraps such an
  object, so that \<^verbatim>\<open>Unwrap\<close> gives a pointer that is not null.
\<close>

record GNContext =
  context_handle :: "nat option"

text \<open>
  A walk over a table from its first entry, as the three \<^verbatim>\<open>for\<close> loops of
  \<^verbatim>\<open>SetContextValue\<close> do it: the first entry whose name compares equal is taken.
\<close>

fun find_setter :: "(string \<times> 'a) list \<Rightarrow> string \<Rightarrow> 'a option" where
  "find_setter [] name = None"
| "find_setter ((opt_name, setter) # rest) name =
     (if opt_name = name then Some setter else find_setter rest name)"

text \<open>
  \<^verbatim>\<open>SetContextValue\<close> over any three tables. The flag \<^verbatim>\<open>found\<close> is carried
  from one loop to the next, and each of the two numeric loops runs only while it is
  false.
\<close>

definition SetContextValue_tables ::
  "(string \<times> context_setter) list \<Rightarrow> (string \<times> uint8_setter) list \<Rightarrow> (string \<times> uint16_setter) list \<Rightarrow>
   extern \<Rightarrow> GNContext \<Rightarrow> string \<Rightarrow> jsval \<Rightarrow> event list" where
  "SetContextValue_tables setters setters8 setters16 x ctx name val =
     (let (found, evs) =
            (case find_setter setters name of
               Some setter \<Rightarrow> (True, setter x (context_handle ctx) val)
             | None \<Rightarrow> (False, []))
      in if \<not> IsNumber val then evs
         else (let (found8, evs8) =
                     (if found then (True, [])
                      else (case find_setter setters8 name of
                              Some setter \<Rightarrow>
                                (let optVal = Uint32Value val
                                 in (True, [Engine (setter (context_handle ctx) (ucast optVal))]))
                            | None \<Rightarrow> (False, [])));
                   evs16 =
                     (if found8 then []
                      else (case find_setter setters16 name of
                              Some setter \<Rightarrow>
                                (let optVal = Uint32Value val
                                 in [Engine (setter (context_handle ctx) (ucast optVal))])
                            | None \<Rightarrow> []))
               in evs @ evs8 @ evs16))"

definition SetContextValue :: "extern \<Rightarrow> GNContext \<Rightarrow> string \<Rightarrow> jsval \<Rightarrow> event list" where
  "SetContextValue = SetContextValue_tables SETTERS UINT8_OPTION_SETTERS UINT16_OPTION_SETTERS"

text \<open>\<^verbatim>\<open>Destroy\<close>: the value returned, what happened, and the object afterwards.\<close>

definition Destroy :: "GNContext \<Rightarrow> jsval \<times> event list \<times> GNContext" where
  "Destroy ctx =
     (JBool True, [Engine (getdns_context_destroy (context_handle ctx))], ctx\<lparr>context_handle := None\<rparr>)"

text \<open>
  The 64-bit transaction identifier and its 8 bytes in memory, lowest byte first
  (the byte order of the machines the module is built for).
\<close>

definition uint64_bytes :: "64 word \<Rightarrow> 8 word list" where
  "uint64_bytes w = map (\<lambda>i. ucast (drop_bit (8 * i) w)) [0..<8]"

definition memcpy_uint64 :: "8 word list \<Rightarrow> 64 word" where
  "memcpy_uint64 bs = foldr (\<lambda>b w. push_bit 8 w OR ucast b) (take 8 bs) 0"

text \<open>
  Modelled from the spec: \<^verbatim>\<open>GNUtil::convertToBuffer\<close> is not part of the file.
  The spec has it as a fixed-size byte copy of the identifier's in-memory
  representation into a buffer, not a textual encoding.
\<close>

definition convertToBuffer :: "64 word \<Rightarrow> nat \<Rightarrow> jsval" where
  "convertToBuffer transId n = JBuffer (take n (uint64_bytes transId))"

text \<open>
  \<^verbatim>\<open>GNContext::Callback\<close>, the completion handler the engine calls with the user
  argument of the request. A host callback that raises leads to
  \<^verbatim>\<open>node::FatalException\<close>; the statements after it are those of the source.
\<close>

definition Callback :: "extern \<Rightarrow> int \<Rightarrow> getdns_dict option \<Rightarrow> CallbackData \<Rightarrow> 64 word \<Rightarrow> event list" where
  "Callback x cbType response data transId =
     (let (argv0, argv1, evs) =
            (if cbType = GETDNS_CALLBACK_COMPLETE
             then (JNull, convertToJSObj x response, [Engine (getdns_dict_destroy response)])
             else (makeErrorObj ''Lookup failed.'' cbType, JNull, []));
          argv2 = convertToBuffer transId 8;
          argv = [argv0, argv1, argv2]
      in evs @ [Call (callback data) argv] @
         (if throws x (callback data) argv then [FatalException] else []) @
         [Unref, Delete_callback data, Delete_data data])"

text \<open>
  \<^verbatim>\<open>node::Buffer::Length\<close> is defined on Buffer objects; on any other value the
  call does not return a length (\<open>None\<close>), and neither does \<^verbatim>\<open>Cancel\<close>.
\<close>

fun Buffer_Length :: "jsval \<Rightarrow> nat option" where
  "Buffer_Length (JBuffer bs) = Some (length bs)"
| "Buffer_Length v = None"

fun Buffer_Data :: "jsval \<Rightarrow> 8 word list" where
  "Buffer_Data (JBuffer bs) = bs"
| "Buffer_Data v = []"

definition Cancel :: "extern \<Rightarrow> GNContext \<Rightarrow> jsval list \<Rightarrow> (jsval \<times> event list) option" where
  "Cancel x ctx args =
     (if context_handle ctx = None then Some (JBool False, [])
      else if length args < 1 then Some (JBool False, [])
      else (case Buffer_Length (arg args 0) of
              None \<Rightarrow> None
            | Some n \<Rightarrow>
                (if n \<noteq> 8 then Some (JBool False, [])
                 else (let transId = memcpy_uint64 (Buffer_Data (arg args 0));
                           call = getdns_cancel_callback (context_handle ctx) transId;
                           r = status x call
                       in Some (JBool (r = GETDNS_RETURN_GOOD), [Engine call])))))"

text \<open>
  \<^verbatim>\<open>GNContext::Lookup\<close>. The two argument checks schedule a type error and do not
  return; the three error deliveries and the last line return.
\<close>

definition Lookup :: "extern \<Rightarrow> GNContext \<Rightarrow> jsval list \<Rightarrow> jsval \<times> event list" where
  "Lookup x ctx args =
     (let evs1 = (if length args < 3
                  then [Throw TypeError ''At least 3 arguments are required.''] else []);
          last = arg args (int (length args) - 1);
          evs2 = (if \<not> IsFunction last
                  then [Throw TypeError ''Final argument must be a function.''] else []);
          localCb = last
      in if context_handle ctx = None
         then (let err = makeErrorObj ''Context is invalid'' GETDNS_RETURN_GENERIC_ERROR
               in (JUndefined, evs1 @ evs2 @ [Call localCb [err]]))
         else (let name = ToString x (arg args 0)
               in if \<not> IsNumber (arg args 1)
                  then (let err = makeErrorObj ''Second argument must be a number''
                                    GETDNS_RETURN_INVALID_PARAMETER
                        in (JUndefined, evs1 @ evs2 @ [Call localCb [err]]))
                  else (let type = (ucast (Uint32Value (arg args 1)) :: 16 word);
                            extension = (if length args > 3 \<and> IsObject (arg args 2)
                                         then convertToDict x (arg args 2) else None);
                            data = \<lparr>callback = localCb\<rparr>;
                            call = getdns_general (context_handle ctx) name type extension data;
                            r = status x call;
                            transId = transaction x call;
                            evs3 = [New_CallbackData data, Ref, Engine call]
                        in if r \<noteq> GETDNS_RETURN_GOOD
                           then (let err = makeErrorObj ''Error issuing query'' r
                                 in (JUndefined,
                                     evs1 @ evs2 @ evs3 @
                                     [Delete_callback data, Unref, Delete_data data,
                                      Call localCb [err]]))
                           else (convertToBuffer transId 8, evs1 @ evs2 @ evs3))))"

text \<open>
  \<^verbatim>\<open>GNContext::HelperLookup\<close>, behind \<^verbatim>\<open>getAddress\<close>, \<^verbatim>\<open>getHostname\<close> and
  \<^verbatim>\<open>getService\<close>; the function data tells which.
\<close>

datatype LookupType = GNAddress | GNHostname | GNService

definition HelperLookup :: "extern \<Rightarrow> LookupType \<Rightarrow> GNContext \<Rightarrow> jsval list \<Rightarrow> jsval \<times> event list" where
  "HelperLookup x funcType ctx args =
     (let evs1 = (if length args < 2
                  then [Throw TypeError ''At least 2 arguments are required.''] else []);
          last = arg args (int (length args) - 1);
          evs2 = (if \<not> IsFunction last
                  then [Throw TypeError ''Final argument must be a function.''] else []);
          localCb = last
      in if context_handle ctx = None
         then (let err = makeErrorObj ''Context is invalid'' GETDNS_RETURN_GENERIC_ERROR
               in (JUndefined, evs1 @ evs2 @ [Call localCb [err]]))
         else (let name = ToString x (arg args 0);
                   extension = (if length args > 2 \<and> IsObject (arg args 1)
                                then convertToDict x (arg args 1) else None);
                   data = \<lparr>callback = localCb\<rparr>;
                   (r, transId, issued) =
                     (case funcType of
                        GNAddress \<Rightarrow>
                          (let call = getdns_address (context_handle ctx) name extension data
                           in (status x call, transaction x call, [Engine call]))
                      | GNService \<Rightarrow>
                          (let call = getdns_service (context_handle ctx) name extension data
                           in (status x call, transaction x call, [Engine call]))
                      | GNHostname \<Rightarrow>
                          (case getdns_util_create_ip x (Some name) of
                             Some ip \<Rightarrow>
                               (let call = getdns_hostname (context_handle ctx) ip extension data
                                in (status x call, transaction x call, [Engine call]))
                           | None \<Rightarrow> (GETDNS_RETURN_GENERIC_ERROR, 0, [])));
                   evs3 = [New_CallbackData data, Ref] @ issued
               in if r \<noteq> GETDNS_RETURN_GOOD
                  then (let err = makeErrorObj ''Error issuing query'' r
                        in (JUndefined,
                            evs1 @ evs2 @ evs3 @
                            [Delete_callback data, Unref, Delete_data data,
                             Call localCb [err]]))
                  else (convertToBuffer transId 8, evs1 @ evs2 @ evs3)))"

section \<open>Reading a trace\<close>

text \<open>The calls of host functions in a trace, in order, each with its arguments.\<close>

fun calls :: "event list \<Rightarrow> (jsval \<times> jsval list) list" where
  "calls [] = []"
| "calls (Call f argv # evs) = (f, argv) # calls evs"
| "calls (e # evs) = calls evs"

text \<open>The exceptions scheduled in a trace, and the calls into the engine.\<close>

fun thrown :: "event list \<Rightarrow> (exn \<times> string) list" where
  "thrown [] = []"
| "thrown (Throw k m # evs) = (k, m) # thrown evs"
| "thrown (e # evs) = thrown evs"

fun engine_calls :: "event list \<Rightarrow> engine_call list" where
  "engine_calls [] = []"
| "engine_calls (Engine c # evs) = c # engine_calls evs"
| "engine_calls (e # evs) = engine_calls evs"

text \<open>Whether a host function call, if the event is one, passes exactly three arguments.\<close>

fun three_arguments :: "event \<Rightarrow> bool" where
  "three_arguments (Call f argv) = (length argv = 3)"
| "three_arguments e = True"

text \<open>
  The part of a trace that concerns the life of a \<^verbatim>\<open>CallbackData\<close>: its
  allocation and deletions, the references to the context, and the host function
  calls.
\<close>

fun lifetime :: "event list \<Rightarrow> event list" where
  "lifetime [] = []"
| "lifetime (Throw k m # evs) = lifetime evs"
| "lifetime (Engine c # evs) = lifetime evs"
| "lifetime (FatalException # evs) = lifetime evs"
| "lifetime (e # evs) = e # lifetime evs"

text \<open>The user argument of a request, and the record type of a general query.\<close>

fun user_arg :: "engine_call \<Rightarrow> CallbackData option" where
  "user_arg (getdns_general h n t e d) = Some d"
| "user_arg (getdns_address h n e d) = Some d"
| "user_arg (getdns_service h n e d) = Some d"
| "user_arg (getdns_hostname h a e d) = Some d"
| "user_arg c = None"

fun request_type :: "engine_call \<Rightarrow> 16 word option" where
  "request_type (getdns_general h n t e d) = Some t"
| "request_type c = None"

text \<open>The first request that a trace hands to the engine, with its user argument.\<close>

fun issue_of :: "event list \<Rightarrow> (engine_call \<times> CallbackData) option" where
  "issue_of [] = None"
| "issue_of (Engine c # evs) =
     (case user_arg c of Some d \<Rightarrow> Some (c, d) | None \<Rightarrow> issue_of evs)"
| "issue_of (e # evs) = issue_of evs"

text \<open>
  Modelled from the spec: the engine is not part of the file. The spec has it fire the
  completion function asynchronously, exactly once per accepted transaction, with
  the user argument of the request and the transaction identifier it assigned. The
  trace of a request is then the trace of the method that issued it, followed, when
  the engine accepted the request, by the trace of the completion handler.
\<close>

definition completed :: "extern \<Rightarrow> event list \<Rightarrow> int \<Rightarrow> getdns_dict option \<Rightarrow> event list" where
  "completed x evs cbType response =
     (case issue_of evs of
        None \<Rightarrow> evs
      | Some (call, data) \<Rightarrow>
          (if status x call = GETDNS_RETURN_GOOD
           then evs @ Callback x cbType response data (transaction x call)
           else evs))"

text \<open>
  Modelled from the spec: the engine is not part of the file. The spec has the
  upstream list installed by the single call of the engine's setter; here the list
  that a trace leaves configured is the list of the last such call that returned
  \<^verbatim>\<open>GETDNS_RETURN_GOOD\<close>, or the list configured before when there is none.
\<close>

fun installed_list :: "engine_call \<Rightarrow> getdns_list option" where
  "installed_list (getdns_context_set_upstream_recursive_servers h l) = Some l"
| "installed_list c = None"

fun configured_upstreams :: "extern \<Rightarrow> getdns_list \<Rightarrow> event list \<Rightarrow> getdns_list" where
  "configured_upstreams x ups [] = ups"
| "configured_upstreams x ups (Engine c # evs) =
     configured_upstreams x
       (case installed_list c of
          Some l \<Rightarrow> (if status x c = GETDNS_RETURN_GOOD then l else ups)
        | None \<Rightarrow> ups)
       evs"
| "configured_upstreams x ups (e # evs) = configured_upstreams x ups evs"

section \<open>A sample environment\<close>

text \<open>
  One concrete environment, for evaluating the definitions on concrete inputs: a C
  library that knows the addresses 1.2.3.4, 8.8.8.8 and ::1, the host's conversion to
  text on strings, booleans, null and undefined (every other value is given one fixed
  text), and an engine that accepts every call and assigns one fixed transaction
  identifier. \<open>rejecting\<close> is the same environment with an engine that returns
  \<^verbatim>\<open>GETDNS_RETURN_GENERIC_ERROR\<close>.
\<close>

definition sample_pton4 :: "string \<Rightarrow> 32 word option" where
  "sample_pton4 s =
     (if s = ''1.2.3.4'' then Some 0x01020304
      else if s = ''8.8.8.8'' then Some 0x08080808
      else None)"

definition sample_pton6 :: "string \<Rightarrow> 128 word option" where
  "sample_pton6 s = (if s = ''::1'' then Some 1 else None)"

fun sample_ToString :: "jsval \<Rightarrow> string" where
  "sample_ToString (JString s) = s"
| "sample_ToString JUndefined = ''undefined''"
| "sample_ToString JNull = ''null''"
| "sample_ToString (JBool b) = (if b then ''true'' else ''false'')"
| "sample_ToString v = ''[object Object]''"

definition sample :: extern where
  "sample =
     \<lparr>pton4 = sample_pton4,
      pton6 = sample_pton6,
      ToString = sample_ToString,
      convertToJSObj = (\<lambda>response. JObject []),
      convertToDict = (\<lambda>v. Some []),
      status = (\<lambda>call. GETDNS_RETURN_GOOD),
      transaction = (\<lambda>call. 0x0102030405060708),
      throws = (\<lambda>f argv. False)\<rparr>"

definition rejecting :: extern where
  "rejecting = sample\<lparr>status := (\<lambda>call. GETDNS_RETURN_GENERIC_ERROR)\<rparr>"

section \<open>Facts about traces and bytes\<close>

lemma lifetime_append: "lifetime (xs @ ys) = lifetime xs @ lifetime ys"
  by (induction xs rule: lifetime.induct) simp_all

lemma calls_append: "calls (xs @ ys) = calls xs @ calls ys"
  by (induction xs rule: calls.induct) simp_all

lemma thrown_append: "thrown (xs @ ys) = thrown xs @ thrown ys"
  by (induction xs rule: thrown.induct) simp_all

lemma engine_calls_append: "engine_calls (xs @ ys) = engine_calls xs @ engine_calls ys"
  by (induction xs rule: engine_calls.induct) simp_all

lemma lifetime_Throws: "lifetime (map (case_prod Throw) ts) = []"
  by (induction ts) auto

lemma calls_Throws: "calls (map (case_prod Throw) ts) = []"
  by (induction ts) auto

lemma engine_calls_Throws: "engine_calls (map (case_prod Throw) ts) = []"
  by (induction ts) auto

lemma thrown_Throws: "thrown (map (case_prod Throw) ts) = ts"
  by (induction ts) auto

lemma issue_of_Throws: "issue_of (map (case_prod Throw) ts @ evs) = issue_of evs"
  by (induction ts) auto

lemma count_list_Throws:
  "(\<And>k m. e \<noteq> Throw k m) \<Longrightarrow> count_list (map (case_prod Throw) ts) e = 0"
  by (induction ts) auto

lemma thrown_map_Throw: "thrown (map (\<lambda>v. Throw k (f v)) vs) = map (\<lambda>v. (k, f v)) vs"
  by (induction vs) auto

lemma length_in_addr_bytes: "length (in_addr_bytes a) = 4"
  by (simp add: in_addr_bytes_def)

lemma length_in6_addr_bytes: "length (in6_addr_bytes a) = 16"
  by (simp add: in6_addr_bytes_def)

lemma length_uint64_bytes: "length (uint64_bytes w) = 8"
  by (simp add: uint64_bytes_def)

text \<open>Reading the 8 bytes of an identifier back gives the identifier.\<close>

lemma memcpy_uint64_bytes: "memcpy_uint64 (uint64_bytes w) = w"
proof -
  have "memcpy_uint64 (uint64_bytes w) =
     (ucast (ucast w :: 8 word) :: 64 word)
     OR push_bit 8 (ucast (ucast (drop_bit 8 w) :: 8 word)
     OR push_bit 8 (ucast (ucast (drop_bit 16 w) :: 8 word)
     OR push_bit 8 (ucast (ucast (drop_bit 24 w) :: 8 word)
     OR push_bit 8 (ucast (ucast (drop_bit 32 w) :: 8 word)
     OR push_bit 8 (ucast (ucast (drop_bit 40 w) :: 8 word)
     OR push_bit 8 (ucast (ucast (drop_bit 48 w) :: 8 word)
     OR push_bit 8 (ucast (ucast (drop_bit 56 w) :: 8 word))))))))"
    by (simp add: memcpy_uint64_def uint64_bytes_def upt_rec or.commute)
  also have "\<dots> = w"
  proof (rule bit_word_eqI)
    fix n
    assume "n < LENGTH(64)"
    then have "n < 64"
      by simp
    then consider "n < 8" | "8 \<le> n" "n < 16" | "16 \<le> n" "n < 24" | "24 \<le> n" "n < 32"
      | "32 \<le> n" "n < 40" | "40 \<le> n" "n < 48" | "48 \<le> n" "n < 56" | "56 \<le> n" "n < 64"
      by linarith
    then show "bit ((ucast (ucast w :: 8 word) :: 64 word)
     OR push_bit 8 (ucast (ucast (drop_bit 8 w) :: 8 word)
     OR push_bit 8 (ucast (ucast (drop_bit 16 w) :: 8 word)
     OR push_bit 8 (ucast (ucast (drop_bit 24 w) :: 8 word)
     OR push_bit 8 (ucast (ucast (drop_bit 32 w) :: 8 word)
     OR push_bit 8 (ucast (ucast (drop_bit 40 w) :: 8 word)
     OR push_bit 8 (ucast (ucast (drop_bit 48 w) :: 8 word)
     OR push_bit 8 (ucast (ucast (drop_bit 56 w) :: 8 word))))))))) n = bit w n"
      by cases (auto simp: bit_simps)
  qed
  finally show ?thesis .
qed

section \<open>Facts about the functions\<close>

lemma create_ip_cases:
  "getdns_util_create_ip x (Some ip) =
     (case pton4 x ip of
        Some a \<Rightarrow> Some [(''address_type'', t_bindata (string_bytes ''IPv4'')),
                        (''address_data'', t_bindata (in_addr_bytes a))]
      | None \<Rightarrow>
          (case pton6 x ip of
             Some a \<Rightarrow> Some [(''address_type'', t_bindata (string_bytes ''IPv6'')),
                             (''address_data'', t_bindata (in6_addr_bytes a))]
           | None \<Rightarrow> None))"
  by (simp add: getdns_util_create_ip_def getdns_dict_create_def getdns_dict_util_set_string_def
      getdns_dict_set_bindata_def length_in_addr_bytes length_in6_addr_bytes
      split: option.split)

text \<open>
  The loop of \<^verbatim>\<open>setUpstreams\<close> in closed form: the list holds the dictionaries
  of the elements that have one, and there is one type error for each element that
  has none.
\<close>

lemma upstreams_loop_eq:
  "upstreams_loop x vs ups =
     (ups @ map t_dict (List.map_filter (ipDict_of x) vs),
      map (\<lambda>v. Throw TypeError (''Upstream value is invalid: '' @ ToString x v))
        (filter (\<lambda>v. ipDict_of x v = None) vs))"
  by (induction vs arbitrary: ups)
     (auto simp: getdns_list_set_dict_def split: option.splits)

lemma lifetime_Callback:
  "lifetime (Callback x cbType response data transId) =
     [Call (callback data)
        [if cbType = GETDNS_CALLBACK_COMPLETE then JNull else makeErrorObj ''Lookup failed.'' cbType,
         if cbType = GETDNS_CALLBACK_COMPLETE then convertToJSObj x response else JNull,
         JBuffer (uint64_bytes transId)],
      Unref, Delete_callback data, Delete_data data]"
  by (simp add: Callback_def Let_def lifetime_append convertToBuffer_def length_uint64_bytes)

lemma calls_Callback:
  "calls (Callback x cbType response data transId) =
     [(callback data,
       [if cbType = GETDNS_CALLBACK_COMPLETE then JNull else makeErrorObj ''Lookup failed.'' cbType,
        if cbType = GETDNS_CALLBACK_COMPLETE then convertToJSObj x response else JNull,
        JBuffer (uint64_bytes transId)])]"
  by (simp add: Callback_def Let_def calls_append convertToBuffer_def length_uint64_bytes)

lemma setUpstreams_eq:
  "setUpstreams x context (JArray vs) =
     map (\<lambda>v. Throw TypeError (''Upstream value is invalid: '' @ ToString x v))
       (filter (\<lambda>v. ipDict_of x v = None) vs) @
     [Engine (getdns_context_set_upstream_recursive_servers context
                (map t_dict (List.map_filter (ipDict_of x) vs)))] @
     (if status x (getdns_context_set_upstream_recursive_servers context
                     (map t_dict (List.map_filter (ipDict_of x) vs))) \<noteq> GETDNS_RETURN_GOOD
      then [Throw TypeError ''Failed to set upstreams.''] else [])"
  by (simp add: setUpstreams_def upstreams_loop_eq Let_def)

lemma counts_Callback:
  "count_list (Callback x cbType response data transId) (Delete_data data) = 1
   \<and> count_list (Callback x cbType response data transId) (Delete_callback data) = 1
   \<and> count_list (Callback x cbType response data transId) Unref = 1"
  by (simp add: Callback_def Let_def)

text \<open>
  \<^verbatim>\<open>Lookup\<close> on a live context with a numeric second argument reaches the
  engine: the two paths from there, after the type errors of the argument checks.
\<close>

lemma Lookup_issued:
  assumes "context_handle ctx = Some h" and "IsNumber (arg args 1)"
  obtains ts name ext where
    "Lookup x ctx args =
       (let data = \<lparr>callback = arg args (int (length args) - 1)\<rparr>;
            call = getdns_general (Some h) name (ucast (Uint32Value (arg args 1))) ext data
        in if status x call \<noteq> GETDNS_RETURN_GOOD
           then (JUndefined,
                 map (case_prod Throw) ts @
                 [New_CallbackData data, Ref, Engine call,
                  Delete_callback data, Unref, Delete_data data,
                  Call (callback data) [makeErrorObj ''Error issuing query'' (status x call)]])
           else (JBuffer (uint64_bytes (transaction x call)),
                 map (case_prod Throw) ts @ [New_CallbackData data, Ref, Engine call]))"
    and "3 \<le> length args \<and> IsFunction (arg args (int (length args) - 1)) \<longrightarrow> ts = []"
proof -
  define ts where "ts =
     (if length args < 3 then [(TypeError, ''At least 3 arguments are required.'')] else []) @
     (if \<not> IsFunction (arg args (int (length args) - 1))
      then [(TypeError, ''Final argument must be a function.'')] else [])"
  define ext where "ext =
     (if length args > 3 \<and> IsObject (arg args 2) then convertToDict x (arg args 2) else None)"
  show thesis
  proof (rule that [of "ToString x (arg args 0)" ext ts])
    show "3 \<le> length args \<and> IsFunction (arg args (int (length args) - 1)) \<longrightarrow> ts = []"
      by (simp add: ts_def)
    show "Lookup x ctx args =
       (let data = \<lparr>callback = arg args (int (length args) - 1)\<rparr>;
            call = getdns_general (Some h) (ToString x (arg args 0))
                     (ucast (Uint32Value (arg args 1))) ext data
        in if status x call \<noteq> GETDNS_RETURN_GOOD
           then (JUndefined,
                 map (case_prod Throw) ts @
                 [New_CallbackData data, Ref, Engine call,
                  Delete_callback data, Unref, Delete_data data,
                  Call (callback data) [makeErrorObj ''Error issuing query'' (status x call)]])
           else (JBuffer (uint64_bytes (transaction x call)),
                 map (case_prod Throw) ts @ [New_CallbackData data, Ref, Engine call]))"
      unfolding ts_def ext_def using assms
      by (simp add: Lookup_def Let_def convertToBuffer_def length_uint64_bytes)
  qed
qed

text \<open>
  The same for \<^verbatim>\<open>HelperLookup\<close> on a live context: either no request is made (a
  host name lookup of a text that is no address) and the status is the generic
  error, or one request is made and the status and the identifier are the engine's.
\<close>

lemma HelperLookup_issued:
  assumes "context_handle ctx = Some h"
  obtains ts issued r transId where
    "HelperLookup x funcType ctx args =
       (let data = \<lparr>callback = arg args (int (length args) - 1)\<rparr>
        in if r \<noteq> GETDNS_RETURN_GOOD
           then (JUndefined,
                 map (case_prod Throw) ts @ [New_CallbackData data, Ref] @ issued @
                 [Delete_callback data, Unref, Delete_data data,
                  Call (callback data) [makeErrorObj ''Error issuing query'' r]])
           else (JBuffer (uint64_bytes transId),
                 map (case_prod Throw) ts @ [New_CallbackData data, Ref] @ issued))"
    and "(issued = [] \<and> r = GETDNS_RETURN_GENERIC_ERROR) \<or>
         (\<exists>call. issued = [Engine call]
            \<and> user_arg call = Some \<lparr>callback = arg args (int (length args) - 1)\<rparr>
            \<and> r = status x call \<and> transId = transaction x call)"
    and "2 \<le> length args \<and> IsFunction (arg args (int (length args) - 1)) \<longrightarrow> ts = []"
proof -
  define ts where "ts =
     (if length args < 2 then [(TypeError, ''At least 2 arguments are required.'')] else []) @
     (if \<not> IsFunction (arg args (int (length args) - 1))
      then [(TypeError, ''Final argument must be a function.'')] else [])"
  define name where "name = ToString x (arg args 0)"
  define ext where "ext =
     (if length args > 2 \<and> IsObject (arg args 1) then convertToDict x (arg args 1) else None)"
  define data where "data = \<lparr>callback = arg args (int (length args) - 1)\<rparr>"
  define triple where "triple =
     (case funcType of
        GNAddress \<Rightarrow>
          (let call = getdns_address (Some h) name ext data
           in (status x call, transaction x call, [Engine call]))
      | GNService \<Rightarrow>
          (let call = getdns_service (Some h) name ext data
           in (status x call, transaction x call, [Engine call]))
      | GNHostname \<Rightarrow>
          (case getdns_util_create_ip x (Some name) of
             Some ip \<Rightarrow>
               (let call = getdns_hostname (Some h) ip ext data
                in (status x call, transaction x call, [Engine call]))
           | None \<Rightarrow> (GETDNS_RETURN_GENERIC_ERROR, 0, [])))"
  show thesis
  proof (rule that [of "fst triple" ts "snd (snd triple)" "fst (snd triple)"])
    show "2 \<le> length args \<and> IsFunction (arg args (int (length args) - 1)) \<longrightarrow> ts = []"
      by (simp add: ts_def)
    show "(snd (snd triple) = [] \<and> fst triple = GETDNS_RETURN_GENERIC_ERROR) \<or>
         (\<exists>call. snd (snd triple) = [Engine call]
            \<and> user_arg call = Some \<lparr>callback = arg args (int (length args) - 1)\<rparr>
            \<and> fst triple = status x call \<and> fst (snd triple) = transaction x call)"
      by (simp add: triple_def Let_def data_def split: LookupType.split option.split)
    have "HelperLookup x funcType ctx args =
       (case triple of (r, transId, issued) \<Rightarrow>
          if r \<noteq> GETDNS_RETURN_GOOD
          then (JUndefined,
                map (case_prod Throw) ts @ [New_CallbackData data, Ref] @ issued @
                [Delete_callback data, Unref, Delete_data data,
                 Call (callback data) [makeErrorObj ''Error issuing query'' r]])
          else (JBuffer (uint64_bytes transId),
                map (case_prod Throw) ts @ [New_CallbackData data, Ref] @ issued))"
      unfolding ts_def triple_def name_def ext_def data_def using assms
      by (cases funcType; cases "getdns_util_create_ip x (Some (ToString x (arg args 0)))")
         (simp_all add: HelperLookup_def Let_def convertToBuffer_def length_uint64_bytes)
    then show "HelperLookup x funcType ctx args =
       (let data = \<lparr>callback = arg args (int (length args) - 1)\<rparr>
        in if fst triple \<noteq> GETDNS_RETURN_GOOD
           then (JUndefined,
                 map (case_prod Throw) ts @ [New_CallbackData data, Ref] @ snd (snd triple) @
                 [Delete_callback data, Unref, Delete_data data,
                  Call (callback data) [makeErrorObj ''Error issuing query'' (fst triple)]])
           else (JBuffer (uint64_bytes (fst (snd triple))),
                 map (case_prod Throw) ts @ [New_CallbackData data, Ref] @ snd (snd triple)))"
      by (simp add: data_def Let_def split: prod.split)
  qed
qed

section \<open>The claims\<close>

subsection \<open>C1: a malformed upstream list\<close>

text \<open>
  Claim C1 says that an element of the upstream list that is no address makes the
  whole operation fail with a type error naming the element, and that nothing is
  committed to the context. The type error is there, but \<^verbatim>\<open>setUpstreams\<close> does
  not leave the loop after \<^verbatim>\<open>NanThrowTypeError\<close>: it goes on and hands the list of
  the elements that did parse to the engine. On the list of 1.2.3.4 and not-an-ip the
  engine's setter is called with the one-element list of 1.2.3.4, and a context that
  had 8.8.8.8 configured has 1.2.3.4 afterwards.
\<close>

theorem setUpstreams_commits_valid_subset:
  "setUpstreams sample (Some 7) (JArray [JString ''1.2.3.4'', JString ''not-an-ip'']) =
     [Throw TypeError ''Upstream value is invalid: not-an-ip'',
      Engine (getdns_context_set_upstream_recursive_servers (Some 7)
                [t_dict [(''address_type'', t_bindata (string_bytes ''IPv4'')),
                         (''address_data'', t_bindata [1, 2, 3, 4])]])]
   \<and> configured_upstreams sample
        [t_dict [(''address_type'', t_bindata (string_bytes ''IPv4'')),
                 (''address_data'', t_bindata [8, 8, 8, 8])]]
        (setUpstreams sample (Some 7) (JArray [JString ''1.2.3.4'', JString ''not-an-ip''])) =
     [t_dict [(''address_type'', t_bindata (string_bytes ''IPv4'')),
              (''address_data'', t_bindata [1, 2, 3, 4])]]"
proof -
  have "setUpstreams sample (Some 7) (JArray [JString ''1.2.3.4'', JString ''not-an-ip'']) =
     [Throw TypeError ''Upstream value is invalid: not-an-ip'',
      Engine (getdns_context_set_upstream_recursive_servers (Some 7)
                [t_dict [(''address_type'', t_bindata (string_bytes ''IPv4'')),
                         (''address_data'', t_bindata [1, 2, 3, 4])]])]"
    by (simp add: setUpstreams_eq ipDict_of_def create_ip_cases
        sample_def sample_pton4_def sample_pton6_def in_addr_bytes_def upt_rec)
  then show ?thesis
    by (simp add: sample_def)
qed

subsection \<open>C2: the record of a pending callback is released once\<close>

text \<open>
  Claim C2: the \<^verbatim>\<open>CallbackData\<close> of an issued request is released exactly once
  on every path. On a live context, a request of \<^verbatim>\<open>Lookup\<close> (second argument a
  Number) or of \<^verbatim>\<open>HelperLookup\<close> has one of two lives, told apart by the status of
  the issue call: rejected, the record is deleted and the context unreferenced, once
  each, and then the callback is called once with the issuance error; accepted, the
  completion handler calls the callback once, with the three arguments of the
  completion kind, and then unreferences the context and deletes the record, once
  each. The counts are taken on the whole trace of the request.
\<close>

theorem pending_callback_released_once:
  assumes "context_handle ctx = Some h"
  shows "(IsNumber (arg args 1) \<longrightarrow>
     (\<exists>call data.
        issue_of (snd (Lookup x ctx args)) = Some (call, data)
        \<and> callback data = arg args (int (length args) - 1)
        \<and> lifetime (completed x (snd (Lookup x ctx args)) cbType response) =
           (if status x call \<noteq> GETDNS_RETURN_GOOD
            then [New_CallbackData data, Ref,
                  Delete_callback data, Unref, Delete_data data,
                  Call (callback data) [makeErrorObj ''Error issuing query'' (status x call)]]
            else [New_CallbackData data, Ref,
                  Call (callback data)
                    [if cbType = GETDNS_CALLBACK_COMPLETE then JNull
                     else makeErrorObj ''Lookup failed.'' cbType,
                     if cbType = GETDNS_CALLBACK_COMPLETE then convertToJSObj x response else JNull,
                     JBuffer (uint64_bytes (transaction x call))],
                  Unref, Delete_callback data, Delete_data data])
        \<and> count_list (completed x (snd (Lookup x ctx args)) cbType response) (Delete_data data) = 1
        \<and> count_list (completed x (snd (Lookup x ctx args)) cbType response) (Delete_callback data) = 1
        \<and> count_list (completed x (snd (Lookup x ctx args)) cbType response) Unref = 1
        \<and> length (calls (completed x (snd (Lookup x ctx args)) cbType response)) = 1))
   \<and> (\<exists>data r transId.
        callback data = arg args (int (length args) - 1)
        \<and> lifetime (completed x (snd (HelperLookup x funcType ctx args)) cbType response) =
           (if r \<noteq> GETDNS_RETURN_GOOD
            then [New_CallbackData data, Ref,
                  Delete_callback data, Unref, Delete_data data,
                  Call (callback data) [makeErrorObj ''Error issuing query'' r]]
            else [New_CallbackData data, Ref,
                  Call (callback data)
                    [if cbType = GETDNS_CALLBACK_COMPLETE then JNull
                     else makeErrorObj ''Lookup failed.'' cbType,
                     if cbType = GETDNS_CALLBACK_COMPLETE then convertToJSObj x response else JNull,
                     JBuffer (uint64_bytes transId)],
                  Unref, Delete_callback data, Delete_data data])
        \<and> count_list (completed x (snd (HelperLookup x funcType ctx args)) cbType response) (Delete_data data) = 1
        \<and> count_list (completed x (snd (HelperLookup x funcType ctx args)) cbType response) (Delete_callback data) = 1
        \<and> count_list (completed x (snd (HelperLookup x funcType ctx args)) cbType response) Unref = 1
        \<and> length (calls (completed x (snd (HelperLookup x funcType ctx args)) cbType response)) = 1
        \<and> ((issue_of (snd (HelperLookup x funcType ctx args)) = None
              \<and> r = GETDNS_RETURN_GENERIC_ERROR) \<or>
           (\<exists>call. issue_of (snd (HelperLookup x funcType ctx args)) = Some (call, data)
              \<and> r = status x call \<and> transId = transaction x call)))"
proof (intro conjI impI)
  assume num: "IsNumber (arg args 1)"
  from assms num obtain ts name ext where L:
    "Lookup x ctx args =
       (let data = \<lparr>callback = arg args (int (length args) - 1)\<rparr>;
            call = getdns_general (Some h) name (ucast (Uint32Value (arg args 1))) ext data
        in if status x call \<noteq> GETDNS_RETURN_GOOD
           then (JUndefined,
                 map (case_prod Throw) ts @
                 [New_CallbackData data, Ref, Engine call,
                  Delete_callback data, Unref, Delete_data data,
                  Call (callback data) [makeErrorObj ''Error issuing query'' (status x call)]])
           else (JBuffer (uint64_bytes (transaction x call)),
                 map (case_prod Throw) ts @ [New_CallbackData data, Ref, Engine call]))"
    by (rule Lookup_issued)
  define data where "data = \<lparr>callback = arg args (int (length args) - 1)\<rparr>"
  define call where "call = getdns_general (Some h) name (ucast (Uint32Value (arg args 1))) ext data"
  define evs where "evs = completed x (snd (Lookup x ctx args)) cbType response"
  have I: "issue_of (snd (Lookup x ctx args)) = Some (call, data)"
    by (simp add: L Let_def issue_of_Throws call_def data_def)
  have C: "callback data = arg args (int (length args) - 1)"
    by (simp add: data_def)
  have E: "evs =
        (if status x call \<noteq> GETDNS_RETURN_GOOD
         then map (case_prod Throw) ts @
              [New_CallbackData data, Ref, Engine call,
               Delete_callback data, Unref, Delete_data data,
               Call (callback data) [makeErrorObj ''Error issuing query'' (status x call)]]
         else map (case_prod Throw) ts @ [New_CallbackData data, Ref, Engine call] @
              Callback x cbType response data (transaction x call))"
    unfolding evs_def completed_def I
    by (simp add: L Let_def flip: call_def data_def)
  have T: "lifetime evs =
        (if status x call \<noteq> GETDNS_RETURN_GOOD
         then [New_CallbackData data, Ref,
               Delete_callback data, Unref, Delete_data data,
               Call (callback data) [makeErrorObj ''Error issuing query'' (status x call)]]
         else [New_CallbackData data, Ref,
               Call (callback data)
                 [if cbType = GETDNS_CALLBACK_COMPLETE then JNull
                  else makeErrorObj ''Lookup failed.'' cbType,
                  if cbType = GETDNS_CALLBACK_COMPLETE then convertToJSObj x response else JNull,
                  JBuffer (uint64_bytes (transaction x call))],
               Unref, Delete_callback data, Delete_data data])"
    by (simp add: E lifetime_append lifetime_Throws lifetime_Callback)
  have N: "count_list evs (Delete_data data) = 1 \<and> count_list evs (Delete_callback data) = 1
      \<and> count_list evs Unref = 1 \<and> length (calls evs) = 1"
    by (simp add: E count_list_Throws counts_Callback calls_append calls_Throws calls_Callback)
  from I C T N show "\<exists>call data.
        issue_of (snd (Lookup x ctx args)) = Some (call, data)
        \<and> callback data = arg args (int (length args) - 1)
        \<and> lifetime (completed x (snd (Lookup x ctx args)) cbType response) =
           (if status x call \<noteq> GETDNS_RETURN_GOOD
            then [New_CallbackData data, Ref,
                  Delete_callback data, Unref, Delete_data data,
                  Call (callback data) [makeErrorObj ''Error issuing query'' (status x call)]]
            else [New_CallbackData data, Ref,
                  Call (callback data)
                    [if cbType = GETDNS_CALLBACK_COMPLETE then JNull
                     else makeErrorObj ''Lookup failed.'' cbType,
                     if cbType = GETDNS_CALLBACK_COMPLETE then convertToJSObj x response else JNull,
                     JBuffer (uint64_bytes (transaction x call))],
                  Unref, Delete_callback data, Delete_data data])
        \<and> count_list (completed x (snd (Lookup x ctx args)) cbType response) (Delete_data data) = 1
        \<and> count_list (completed x (snd (Lookup x ctx args)) cbType response) (Delete_callback data) = 1
        \<and> count_list (completed x (snd (Lookup x ctx args)) cbType response) Unref = 1
        \<and> length (calls (completed x (snd (Lookup x ctx args)) cbType response)) = 1"
    unfolding evs_def by blast
next
  show "\<exists>data r transId.
        callback data = arg args (int (length args) - 1)
        \<and> lifetime (completed x (snd (HelperLookup x funcType ctx args)) cbType response) =
           (if r \<noteq> GETDNS_RETURN_GOOD
            then [New_CallbackData data, Ref,
                  Delete_callback data, Unref, Delete_data data,
                  Call (callback data) [makeErrorObj ''Error issuing query'' r]]
            else [New_CallbackData data, Ref,
                  Call (callback data)
                    [if cbType = GETDNS_CALLBACK_COMPLETE then JNull
                     else makeErrorObj ''Lookup failed.'' cbType,
                     if cbType = GETDNS_CALLBACK_COMPLETE then convertToJSObj x response else JNull,
                     JBuffer (uint64_bytes transId)],
                  Unref, Delete_callback data, Delete_data data])
        \<and> count_list (completed x (snd (HelperLookup x funcType ctx args)) cbType response) (Delete_data data) = 1
        \<and> count_list (completed x (snd (HelperLookup x funcType ctx args)) cbType response) (Delete_callback data) = 1
        \<and> count_list (completed x (snd (HelperLookup x funcType ctx args)) cbType response) Unref = 1
        \<and> length (calls (completed x (snd (HelperLookup x funcType ctx args)) cbType response)) = 1
        \<and> ((issue_of (snd (HelperLookup x funcType ctx args)) = None
              \<and> r = GETDNS_RETURN_GENERIC_ERROR) \<or>
           (\<exists>call. issue_of (snd (HelperLookup x funcType ctx args)) = Some (call, data)
              \<and> r = status x call \<and> transId = transaction x call))"
  proof -
    from assms obtain ts issued r transId where H:
      "HelperLookup x funcType ctx args =
         (let data = \<lparr>callback = arg args (int (length args) - 1)\<rparr>
          in if r \<noteq> GETDNS_RETURN_GOOD
             then (JUndefined,
                   map (case_prod Throw) ts @ [New_CallbackData data, Ref] @ issued @
                   [Delete_callback data, Unref, Delete_data data,
                    Call (callback data) [makeErrorObj ''Error issuing query'' r]])
             else (JBuffer (uint64_bytes transId),
                   map (case_prod Throw) ts @ [New_CallbackData data, Ref] @ issued))"
      and D: "(issued = [] \<and> r = GETDNS_RETURN_GENERIC_ERROR) \<or>
           (\<exists>call. issued = [Engine call]
              \<and> user_arg call = Some \<lparr>callback = arg args (int (length args) - 1)\<rparr>
              \<and> r = status x call \<and> transId = transaction x call)"
      by (rule HelperLookup_issued [of ctx h x funcType args])
    define data where "data = \<lparr>callback = arg args (int (length args) - 1)\<rparr>"
    define evs where "evs = completed x (snd (HelperLookup x funcType ctx args)) cbType response"
    have C: "callback data = arg args (int (length args) - 1)"
      by (simp add: data_def)
    have E: "evs =
        (if r \<noteq> GETDNS_RETURN_GOOD
         then map (case_prod Throw) ts @ [New_CallbackData data, Ref] @ issued @
              [Delete_callback data, Unref, Delete_data data,
               Call (callback data) [makeErrorObj ''Error issuing query'' r]]
         else map (case_prod Throw) ts @ [New_CallbackData data, Ref] @ issued @
              Callback x cbType response data transId)"
      using D unfolding evs_def completed_def
      by (auto simp: H Let_def issue_of_Throws simp flip: data_def)
    have F: "lifetime issued = [] \<and> calls issued = [] \<and> count_list issued (Delete_data data) = 0
        \<and> count_list issued (Delete_callback data) = 0 \<and> count_list issued Unref = 0"
      using D by auto
    have T: "lifetime evs =
           (if r \<noteq> GETDNS_RETURN_GOOD
            then [New_CallbackData data, Ref,
                  Delete_callback data, Unref, Delete_data data,
                  Call (callback data) [makeErrorObj ''Error issuing query'' r]]
            else [New_CallbackData data, Ref,
                  Call (callback data)
                    [if cbType = GETDNS_CALLBACK_COMPLETE then JNull
                     else makeErrorObj ''Lookup failed.'' cbType,
                     if cbType = GETDNS_CALLBACK_COMPLETE then convertToJSObj x response else JNull,
                     JBuffer (uint64_bytes transId)],
                  Unref, Delete_callback data, Delete_data data])"
      by (simp add: E F lifetime_append lifetime_Throws lifetime_Callback)
    have N: "count_list evs (Delete_data data) = 1 \<and> count_list evs (Delete_callback data) = 1
        \<and> count_list evs Unref = 1 \<and> length (calls evs) = 1"
      by (simp add: E F count_list_Throws counts_Callback calls_append calls_Throws calls_Callback)
    have I: "(issue_of (snd (HelperLookup x funcType ctx args)) = None
              \<and> r = GETDNS_RETURN_GENERIC_ERROR) \<or>
           (\<exists>call. issue_of (snd (HelperLookup x funcType ctx args)) = Some (call, data)
              \<and> r = status x call \<and> transId = transaction x call)"
      using D by (auto simp: H Let_def issue_of_Throws simp flip: data_def)
    from C T N I show ?thesis
      unfolding evs_def by blast
  qed
qed

theorem pending_callback_released_once_witness:
  "lifetime (completed sample
      (snd (Lookup sample \<lparr>context_handle = Some 7\<rparr>
              [JString ''example.com'', JNumber 1, JFunction 0])) 700 (Some [])) =
     [New_CallbackData \<lparr>callback = JFunction 0\<rparr>, Ref,
      Call (JFunction 0) [JNull, JObject [], JBuffer (uint64_bytes 0x0102030405060708)],
      Unref, Delete_callback \<lparr>callback = JFunction 0\<rparr>, Delete_data \<lparr>callback = JFunction 0\<rparr>]
   \<and> lifetime (completed rejecting
      (snd (Lookup rejecting \<lparr>context_handle = Some 7\<rparr>
              [JString ''example.com'', JNumber 1, JFunction 0])) 700 (Some [])) =
     [New_CallbackData \<lparr>callback = JFunction 0\<rparr>, Ref,
      Delete_callback \<lparr>callback = JFunction 0\<rparr>, Unref, Delete_data \<lparr>callback = JFunction 0\<rparr>,
      Call (JFunction 0) [makeErrorObj ''Error issuing query'' 1]]"
proof -
  let ?ctx = "\<lparr>context_handle = Some 7\<rparr>"
  let ?args = "[JString ''example.com'', JNumber 1, JFunction 0]"
  have h: "context_handle ?ctx = Some 7"
    by simp
  have n: "IsNumber (arg ?args 1)" and l: "arg ?args (int (length ?args) - 1) = JFunction 0"
    by (simp_all add: arg_def)
  from pending_callback_released_once [OF h, of ?args sample 700 "Some []" GNAddress] n
  obtain call data where
    "issue_of (snd (Lookup sample ?ctx ?args)) = Some (call, data)"
    and c: "callback data = arg ?args (int (length ?args) - 1)"
    and t: "lifetime (completed sample (snd (Lookup sample ?ctx ?args)) 700 (Some [])) =
           (if status sample call \<noteq> GETDNS_RETURN_GOOD
            then [New_CallbackData data, Ref,
                  Delete_callback data, Unref, Delete_data data,
                  Call (callback data) [makeErrorObj ''Error issuing query'' (status sample call)]]
            else [New_CallbackData data, Ref,
                  Call (callback data)
                    [if (700 :: int) = GETDNS_CALLBACK_COMPLETE then JNull
                     else makeErrorObj ''Lookup failed.'' 700,
                     if (700 :: int) = GETDNS_CALLBACK_COMPLETE then convertToJSObj sample (Some []) else JNull,
                     JBuffer (uint64_bytes (transaction sample call))],
                  Unref, Delete_callback data, Delete_data data])"
    by blast
  from c l have d: "data = \<lparr>callback = JFunction 0\<rparr>"
    by (cases data) simp
  have first: "lifetime (completed sample (snd (Lookup sample ?ctx ?args)) 700 (Some [])) =
     [New_CallbackData \<lparr>callback = JFunction 0\<rparr>, Ref,
      Call (JFunction 0) [JNull, JObject [], JBuffer (uint64_bytes 0x0102030405060708)],
      Unref, Delete_callback \<lparr>callback = JFunction 0\<rparr>, Delete_data \<lparr>callback = JFunction 0\<rparr>]"
    unfolding t d by (simp add: sample_def)
  from pending_callback_released_once [OF h, of ?args rejecting 700 "Some []" GNAddress] n
  obtain call' data' where
    "issue_of (snd (Lookup rejecting ?ctx ?args)) = Some (call', data')"
    and c': "callback data' = arg ?args (int (length ?args) - 1)"
    and t': "lifetime (completed rejecting (snd (Lookup rejecting ?ctx ?args)) 700 (Some [])) =
           (if status rejecting call' \<noteq> GETDNS_RETURN_GOOD
            then [New_CallbackData data', Ref,
                  Delete_callback data', Unref, Delete_data data',
                  Call (callback data') [makeErrorObj ''Error issuing query'' (status rejecting call')]]
            else [New_CallbackData data', Ref,
                  Call (callback data')
                    [if (700 :: int) = GETDNS_CALLBACK_COMPLETE then JNull
                     else makeErrorObj ''Lookup failed.'' 700,
                     if (700 :: int) = GETDNS_CALLBACK_COMPLETE
                     then convertToJSObj rejecting (Some []) else JNull,
                     JBuffer (uint64_bytes (transaction rejecting call'))],
                  Unref, Delete_callback data', Delete_data data'])"
    by blast
  from c' l have d': "data' = \<lparr>callback = JFunction 0\<rparr>"
    by (cases data') simp
  have second: "lifetime (completed rejecting (snd (Lookup rejecting ?ctx ?args)) 700 (Some [])) =
     [New_CallbackData \<lparr>callback = JFunction 0\<rparr>, Ref,
      Delete_callback \<lparr>callback = JFunction 0\<rparr>, Unref, Delete_data \<lparr>callback = JFunction 0\<rparr>,
      Call (JFunction 0) [makeErrorObj ''Error issuing query'' 1]]"
    unfolding t' d' by (simp add: rejecting_def sample_def)
  from first second show ?thesis
    by simp
qed

subsection \<open>C3: the arguments of the host callback\<close>

text \<open>
  Claim C3 says that every invocation of the host callback, the synchronous ones
  too, passes the three arguments error, result and transaction identifier. The
  completion handler does; the synchronous deliveries of \<^verbatim>\<open>Lookup\<close> and
  \<^verbatim>\<open>HelperLookup\<close> (invalid context, second argument no Number, issuance
  rejected) pass one argument, the error object: each of them builds
  \<^verbatim>\<open>cbArgs[] = { err }\<close> and calls with the count 1. Counterexample to C3:
  \<^verbatim>\<open>lookup\<close> on a context without a handle calls the callback with one argument.
\<close>

theorem synchronous_delivery_one_argument:
  "snd (Lookup sample \<lparr>context_handle = None\<rparr> [JString ''example.com'', JNumber 1, JFunction 0]) =
     [Call (JFunction 0) [makeErrorObj ''Context is invalid'' GETDNS_RETURN_GENERIC_ERROR]]
   \<and> \<not> list_all three_arguments
         (snd (Lookup sample \<lparr>context_handle = None\<rparr>
                 [JString ''example.com'', JNumber 1, JFunction 0]))"
  by (simp add: Lookup_def arg_def)

text \<open>
  Claim C3 as amended: the completion handler calls the host callback with exactly
  three arguments in the fixed order: on \<^verbatim>\<open>GETDNS_CALLBACK_COMPLETE\<close> null, the
  converted response and the transaction identifier as a buffer of 8 bytes, on any
  other completion kind the error object of that kind, null and the same buffer.
  Every call of the host callback made by \<^verbatim>\<open>Lookup\<close> or \<^verbatim>\<open>HelperLookup\<close>
  themselves passes exactly one argument, an error object, to the last argument of
  the method.
\<close>

theorem callback_arguments:
  "calls (Callback x cbType response data transId) =
     [(callback data,
       [if cbType = GETDNS_CALLBACK_COMPLETE then JNull else makeErrorObj ''Lookup failed.'' cbType,
        if cbType = GETDNS_CALLBACK_COMPLETE then convertToJSObj x response else JNull,
        JBuffer (uint64_bytes transId)])]
   \<and> length (uint64_bytes transId) = 8
   \<and> (calls (snd (Lookup x ctx args)) = [] \<or>
      (\<exists>m c. calls (snd (Lookup x ctx args)) =
               [(arg args (int (length args) - 1), [makeErrorObj m c])]))
   \<and> (calls (snd (HelperLookup x funcType ctx args)) = [] \<or>
      (\<exists>m c. calls (snd (HelperLookup x funcType ctx args)) =
               [(arg args (int (length args) - 1), [makeErrorObj m c])]))"
proof (intro conjI)
  show "calls (snd (Lookup x ctx args)) = [] \<or>
      (\<exists>m c. calls (snd (Lookup x ctx args)) =
               [(arg args (int (length args) - 1), [makeErrorObj m c])])"
    by (auto simp: Lookup_def Let_def calls_append)
  show "calls (snd (HelperLookup x funcType ctx args)) = [] \<or>
      (\<exists>m c. calls (snd (HelperLookup x funcType ctx args)) =
               [(arg args (int (length args) - 1), [makeErrorObj m c])])"
    by (cases funcType; cases "getdns_util_create_ip x (Some (ToString x (arg args 0)))")
       (auto simp: HelperLookup_def Let_def calls_append)
qed (rule calls_Callback length_uint64_bytes)+

theorem callback_arguments_witness:
  "calls (Callback sample 700 (Some []) \<lparr>callback = JFunction 0\<rparr> 0x0102030405060708) =
     [(JFunction 0, [JNull, JObject [], JBuffer (uint64_bytes 0x0102030405060708)])]
   \<and> calls (Callback sample 702 None \<lparr>callback = JFunction 0\<rparr> 0x0102030405060708) =
     [(JFunction 0, [makeErrorObj ''Lookup failed.'' 702, JNull,
                     JBuffer (uint64_bytes 0x0102030405060708)])]"
  using callback_arguments [of sample 700 "Some []" "\<lparr>callback = JFunction 0\<rparr>" "0x0102030405060708"
      "\<lparr>context_handle = None\<rparr>" "[]" GNAddress]
    callback_arguments [of sample 702 None "\<lparr>callback = JFunction 0\<rparr>" "0x0102030405060708"
      "\<lparr>context_handle = None\<rparr>" "[]" GNAddress]
  by (simp add: sample_def)

subsection \<open>C4: destroy twice, then lookup\<close>

text \<open>
  Claim C4 says that after \<^verbatim>\<open>destroy()\<close> every \<^verbatim>\<open>lookup()\<close> with a callable
  last argument delivers the invalid-context error to the callback rather than
  throwing. The check of the argument count comes first and schedules a type error.
  Counterexample to C4: \<^verbatim>\<open>lookup(cb)\<close> on a destroyed context schedules the type
  error of the argument count, besides calling \<^verbatim>\<open>cb\<close>.
\<close>

theorem destroyed_lookup_also_throws:
  "snd (Lookup sample (snd (snd (Destroy \<lparr>context_handle = Some 7\<rparr>))) [JFunction 0]) =
     [Throw TypeError ''At least 3 arguments are required.'',
      Call (JFunction 0) [makeErrorObj ''Context is invalid'' GETDNS_RETURN_GENERIC_ERROR]]"
  by (simp add: Lookup_def Destroy_def arg_def)

text \<open>
  Claim C4 as amended: \<^verbatim>\<open>destroy()\<close> returns true and hands the handle to the
  engine's destroy; a second \<^verbatim>\<open>destroy()\<close> returns true again, hands over the null
  handle and leaves the object as it was; and on the destroyed context every
  \<^verbatim>\<open>lookup()\<close> with at least three arguments and a callable last argument returns
  undefined after one call of that callback with the invalid-context error, and
  nothing else: no exception and no engine call.
\<close>

theorem destroy_then_lookup:
  "Destroy ctx = (JBool True, [Engine (getdns_context_destroy (context_handle ctx))],
                  ctx\<lparr>context_handle := None\<rparr>)
   \<and> Destroy (snd (snd (Destroy ctx))) =
       (JBool True, [Engine (getdns_context_destroy None)], snd (snd (Destroy ctx)))
   \<and> (3 \<le> length args \<and> IsFunction (last args) \<longrightarrow>
        Lookup x (snd (snd (Destroy ctx))) args =
          (JUndefined,
           [Call (last args) [makeErrorObj ''Context is invalid'' GETDNS_RETURN_GENERIC_ERROR]]))"
  by (auto simp: Destroy_def Lookup_def arg_def Let_def last_conv_nth nat_diff_distrib')

theorem destroy_then_lookup_witness:
  "Destroy (snd (snd (Destroy \<lparr>context_handle = Some 7\<rparr>))) =
     (JBool True, [Engine (getdns_context_destroy None)], \<lparr>context_handle = None\<rparr>)
   \<and> Lookup sample (snd (snd (Destroy \<lparr>context_handle = Some 7\<rparr>)))
        [JString ''example.com'', JNumber 1, JFunction 0] =
     (JUndefined,
      [Call (JFunction 0) [makeErrorObj ''Context is invalid'' GETDNS_RETURN_GENERIC_ERROR]])"
  using destroy_then_lookup [of "\<lparr>context_handle = Some 7\<rparr>"
      "[JString ''example.com'', JNumber 1, JFunction 0]" sample]
  by (simp add: Destroy_def)

subsection \<open>C5: option dispatch\<close>

text \<open>
  Claim C5: the name is looked up in the generic table first, and a match there
  invokes that setter with the raw value and ends the dispatch, whatever the numeric
  tables hold; only when the generic table misses and the value is a Number are the
  8-bit table and then the 16-bit table consulted, and the value is narrowed to the
  width of the setter (modulo \<open>2 ^ 8\<close> or \<open>2 ^ 16\<close>) without a range check; a name in
  no table, and a name outside the generic table with a value that is no Number,
  leave no trace at all. Stated for any three tables; \<^verbatim>\<open>SetContextValue\<close> is the
  instance at the three tables of the file.
\<close>

theorem option_dispatch:
  "SetContextValue = SetContextValue_tables SETTERS UINT8_OPTION_SETTERS UINT16_OPTION_SETTERS
   \<and> (find_setter setters name = Some f \<longrightarrow>
      SetContextValue_tables setters byte_setters short_setters x ctx name v = f x (context_handle ctx) v)
   \<and> (find_setter setters name = None \<and> \<not> IsNumber v \<longrightarrow>
      SetContextValue_tables setters byte_setters short_setters x ctx name v = [])
   \<and> (find_setter setters name = None \<and> IsNumber v \<and> find_setter byte_setters name = Some g_byte \<longrightarrow>
      SetContextValue_tables setters byte_setters short_setters x ctx name v =
        [Engine (g_byte (context_handle ctx) (ucast (Uint32Value v)))])
   \<and> (find_setter setters name = None \<and> IsNumber v \<and> find_setter byte_setters name = None
        \<and> find_setter short_setters name = Some g_short \<longrightarrow>
      SetContextValue_tables setters byte_setters short_setters x ctx name v =
        [Engine (g_short (context_handle ctx) (ucast (Uint32Value v)))])
   \<and> (find_setter setters name = None \<and> find_setter byte_setters name = None
        \<and> find_setter short_setters name = None \<longrightarrow>
      SetContextValue_tables setters byte_setters short_setters x ctx name v = [])
   \<and> unat (ucast w :: 8 word) = unat (w :: 32 word) mod 2 ^ 8
   \<and> unat (ucast w :: 16 word) = unat w mod 2 ^ 16"
  by (simp add: SetContextValue_def SetContextValue_tables_def unsigned_ucast_eq take_bit_eq_mod)

theorem option_dispatch_witness:
  "SetContextValue_tables [(''timeout'', \<lambda>x. setTimeout)]
       [(''timeout'', getdns_context_set_edns_version)] []
       sample \<lparr>context_handle = Some 7\<rparr> ''timeout'' (JNumber 500) =
     [Engine (getdns_context_set_timeout (Some 7) 500)]
   \<and> SetContextValue sample \<lparr>context_handle = Some 7\<rparr> ''edns_version'' (JNumber 257) =
     [Engine (getdns_context_set_edns_version (Some 7) 1)]
   \<and> SetContextValue sample \<lparr>context_handle = Some 7\<rparr> ''limit_outstanding_queries'' (JNumber 65537) =
     [Engine (getdns_context_set_limit_outstanding_queries (Some 7) 1)]
   \<and> SetContextValue sample \<lparr>context_handle = Some 7\<rparr> ''edns_version'' (JString ''1'') = []
   \<and> SetContextValue sample \<lparr>context_handle = Some 7\<rparr> ''no_such_option'' (JNumber 1) = []"
  using
    option_dispatch [where setters = "[(''timeout'', \<lambda>x. setTimeout)]" and name = "''timeout''"
      and f = "\<lambda>x. setTimeout" and byte_setters = "[(''timeout'', getdns_context_set_edns_version)]"
      and short_setters = "[]" and x = sample and ctx = "\<lparr>context_handle = Some 7\<rparr>"
      and v = "JNumber 500"]
    option_dispatch [where setters = SETTERS and name = "''edns_version''"
      and byte_setters = UINT8_OPTION_SETTERS and short_setters = UINT16_OPTION_SETTERS
      and g_byte = getdns_context_set_edns_version
      and x = sample and ctx = "\<lparr>context_handle = Some 7\<rparr>" and v = "JNumber 257"]
    option_dispatch [where setters = SETTERS and name = "''limit_outstanding_queries''"
      and byte_setters = UINT8_OPTION_SETTERS and short_setters = UINT16_OPTION_SETTERS
      and g_short = getdns_context_set_limit_outstanding_queries
      and x = sample and ctx = "\<lparr>context_handle = Some 7\<rparr>" and v = "JNumber 65537"]
    option_dispatch [where setters = SETTERS and name = "''edns_version''"
      and byte_setters = UINT8_OPTION_SETTERS and short_setters = UINT16_OPTION_SETTERS
      and x = sample and ctx = "\<lparr>context_handle = Some 7\<rparr>" and v = "JString ''1''"]
    option_dispatch [where setters = SETTERS and name = "''no_such_option''"
      and byte_setters = UINT8_OPTION_SETTERS and short_setters = UINT16_OPTION_SETTERS
      and x = sample and ctx = "\<lparr>context_handle = Some 7\<rparr>" and v = "JNumber 1"]
  by (simp add: SETTERS_def UINT8_OPTION_SETTERS_def UINT16_OPTION_SETTERS_def setTimeout_def)

subsection \<open>C6: the shape of option values\<close>

text \<open>
  Claim C6 says that an endpoint-list option given a value that is no list, and a
  boolean option given a value that is no boolean, raise a type error. Neither does:
  \<^verbatim>\<open>setUpstreams\<close> does nothing unless the value is an Array, and \<^verbatim>\<open>setStub\<close>
  takes every value but \<^verbatim>\<open>true\<close> as false. Counterexample to C6: a string as the
  upstream list leaves no trace, and a string as the stub flag selects recursing
  resolution.
\<close>

theorem malformed_option_values_raise_nothing:
  "SetContextValue sample \<lparr>context_handle = Some 7\<rparr> ''upstreams'' (JString ''1.2.3.4'') = []
   \<and> SetContextValue sample \<lparr>context_handle = Some 7\<rparr> ''stub'' (JString ''yes'') =
       [Engine (getdns_context_set_resolution_type (Some 7) GETDNS_RESOLUTION_RECURSING)]"
  by (simp add: SetContextValue_def SetContextValue_tables_def SETTERS_def setUpstreams_def
      setStub_def)

text \<open>
  Claim C6 as amended: an endpoint-list option given a value that is no Array is
  ignored, with no error and no engine call; a boolean option never raises: it hands
  the engine the state for true when the value is the boolean \<^verbatim>\<open>true\<close> and the
  state for false on every other value; an endpoint list raises a type error naming
  the element for an element that gives no endpoint.
\<close>

theorem option_shape_handling:
  "(\<not> IsArray v \<longrightarrow>
      SetContextValue x ctx ''upstreams'' v = []
      \<and> SetContextValue x ctx ''upstream_recursive_servers'' v = [])
   \<and> SetContextValue x ctx ''stub'' v =
       [Engine (getdns_context_set_resolution_type (context_handle ctx)
                  (if IsTrue v then GETDNS_RESOLUTION_STUB else GETDNS_RESOLUTION_RECURSING))]
   \<and> SetContextValue x ctx ''use_threads'' v =
       [Engine (getdns_context_set_use_threads (context_handle ctx) (if IsTrue v then 1 else 0))]
   \<and> SetContextValue x ctx ''return_dnssec_status'' v =
       [Engine (getdns_context_set_return_dnssec_status (context_handle ctx)
                  (if IsTrue v then GETDNS_EXTENSION_TRUE else GETDNS_EXTENSION_FALSE))]
   \<and> (e \<in> set vs \<and> ipDict_of x e = None \<longrightarrow>
       (TypeError, ''Upstream value is invalid: '' @ ToString x e)
         \<in> set (thrown (SetContextValue x ctx ''upstreams'' (JArray vs))))"
proof (intro conjI impI)
  assume "\<not> IsArray v"
  then show "SetContextValue x ctx ''upstreams'' v = []"
    and "SetContextValue x ctx ''upstream_recursive_servers'' v = []"
    by (simp_all add: SetContextValue_def SetContextValue_tables_def SETTERS_def setUpstreams_def)
next
  show "SetContextValue x ctx ''stub'' v =
       [Engine (getdns_context_set_resolution_type (context_handle ctx)
                  (if IsTrue v then GETDNS_RESOLUTION_STUB else GETDNS_RESOLUTION_RECURSING))]"
    by (simp add: SetContextValue_def SetContextValue_tables_def SETTERS_def setStub_def)
  show "SetContextValue x ctx ''use_threads'' v =
       [Engine (getdns_context_set_use_threads (context_handle ctx) (if IsTrue v then 1 else 0))]"
    by (simp add: SetContextValue_def SetContextValue_tables_def SETTERS_def setUseThreads_def)
  show "SetContextValue x ctx ''return_dnssec_status'' v =
       [Engine (getdns_context_set_return_dnssec_status (context_handle ctx)
                  (if IsTrue v then GETDNS_EXTENSION_TRUE else GETDNS_EXTENSION_FALSE))]"
    by (simp add: SetContextValue_def SetContextValue_tables_def SETTERS_def
        setReturnDnssecStatus_def)
next
  assume "e \<in> set vs \<and> ipDict_of x e = None"
  then have "(TypeError, ''Upstream value is invalid: '' @ ToString x e)
      \<in> set (thrown (setUpstreams x (context_handle ctx) (JArray vs)))"
    by (auto simp: setUpstreams_eq thrown_append thrown_map_Throw)
  then show "(TypeError, ''Upstream value is invalid: '' @ ToString x e)
         \<in> set (thrown (SetContextValue x ctx ''upstreams'' (JArray vs)))"
    by (simp add: SetContextValue_def SetContextValue_tables_def SETTERS_def)
qed

theorem option_shape_handling_witness:
  "SetContextValue sample \<lparr>context_handle = Some 7\<rparr> ''upstreams'' (JNumber 5) = []
   \<and> SetContextValue sample \<lparr>context_handle = Some 7\<rparr> ''stub'' (JNumber 5) =
       [Engine (getdns_context_set_resolution_type (Some 7) GETDNS_RESOLUTION_RECURSING)]
   \<and> (TypeError, ''Upstream value is invalid: not-an-ip'')
       \<in> set (thrown (SetContextValue sample \<lparr>context_handle = Some 7\<rparr> ''upstreams''
                         (JArray [JString ''1.2.3.4'', JString ''not-an-ip''])))"
  using option_shape_handling [of "JNumber 5" sample "\<lparr>context_handle = Some 7\<rparr>"
      "JString ''not-an-ip''" "[JString ''1.2.3.4'', JString ''not-an-ip'']"]
  by (simp add: ipDict_of_def create_ip_cases sample_def sample_pton4_def sample_pton6_def)

subsection \<open>C7: cancel\<close>

text \<open>
  Claim C7: \<^verbatim>\<open>cancel\<close> returns false and makes no engine call when the context
  has no handle, when no argument is given, and when the buffer is not 8 bytes long;
  otherwise it hands the 64-bit identifier read from the 8 bytes to the engine's
  cancellation and returns true exactly when the engine returns
  \<^verbatim>\<open>GETDNS_RETURN_GOOD\<close>. The identifier read is the one whose bytes the buffer
  holds.
\<close>

theorem cancel_contract:
  "Cancel x ctx [] = Some (JBool False, [])
   \<and> (context_handle ctx = None \<longrightarrow> Cancel x ctx args = Some (JBool False, []))
   \<and> (length bs \<noteq> 8 \<longrightarrow> Cancel x ctx (JBuffer bs # rest) = Some (JBool False, []))
   \<and> (context_handle ctx \<noteq> None \<and> length bs = 8 \<longrightarrow>
        Cancel x ctx (JBuffer bs # rest) =
          Some (JBool (status x (getdns_cancel_callback (context_handle ctx) (memcpy_uint64 bs))
                       = GETDNS_RETURN_GOOD),
                [Engine (getdns_cancel_callback (context_handle ctx) (memcpy_uint64 bs))]))
   \<and> memcpy_uint64 (uint64_bytes transId) = transId"
  by (simp add: Cancel_def arg_def Let_def memcpy_uint64_bytes)

theorem cancel_contract_witness:
  "Cancel sample \<lparr>context_handle = None\<rparr> [JBuffer [1, 2, 3, 4, 5, 6, 7, 8]] = Some (JBool False, [])
   \<and> Cancel sample \<lparr>context_handle = Some 7\<rparr> [JBuffer [1, 2, 3, 4]] = Some (JBool False, [])
   \<and> Cancel sample \<lparr>context_handle = Some 7\<rparr> [JBuffer [8, 7, 6, 5, 4, 3, 2, 1]] =
       Some (JBool True, [Engine (getdns_cancel_callback (Some 7) 0x0102030405060708)])
   \<and> Cancel rejecting \<lparr>context_handle = Some 7\<rparr> [JBuffer [8, 7, 6, 5, 4, 3, 2, 1]] =
       Some (JBool False, [Engine (getdns_cancel_callback (Some 7) 0x0102030405060708)])"
  using
    cancel_contract [of sample "\<lparr>context_handle = None\<rparr>" "[JBuffer [1, 2, 3, 4, 5, 6, 7, 8]]" "[]" "[]" 0]
    cancel_contract [of sample "\<lparr>context_handle = Some 7\<rparr>" "[]" "[1, 2, 3, 4]" "[]" 0]
    cancel_contract [of sample "\<lparr>context_handle = Some 7\<rparr>" "[]" "[8, 7, 6, 5, 4, 3, 2, 1]" "[]" 0]
    cancel_contract [of rejecting "\<lparr>context_handle = Some 7\<rparr>" "[]" "[8, 7, 6, 5, 4, 3, 2, 1]" "[]" 0]
  by (simp add: sample_def rejecting_def memcpy_uint64_def)

subsection \<open>C8: endpoint construction\<close>

text \<open>
  Claim C8: an address text is tried as IPv4 first and gives a dictionary with
  \<^verbatim>\<open>address_type\<close> IPv4 and the 4 bytes of the address as \<^verbatim>\<open>address_data\<close>;
  otherwise it is tried as IPv6 and gives \<^verbatim>\<open>address_type\<close> IPv6 and 16 bytes; a
  text that is neither gives no dictionary. An element that is a string is built from
  its text; in a pair of an address and a Number, the Number is stored under
  \<^verbatim>\<open>port\<close>.
\<close>

theorem endpoint_construction:
  "getdns_util_create_ip x (Some ip) =
     (case pton4 x ip of
        Some a \<Rightarrow> Some [(''address_type'', t_bindata (string_bytes ''IPv4'')),
                        (''address_data'', t_bindata (in_addr_bytes a))]
      | None \<Rightarrow>
          (case pton6 x ip of
             Some a \<Rightarrow> Some [(''address_type'', t_bindata (string_bytes ''IPv6'')),
                             (''address_data'', t_bindata (in6_addr_bytes a))]
           | None \<Rightarrow> None))
   \<and> getdns_util_create_ip x None = None
   \<and> length (in_addr_bytes v4) = 4
   \<and> length (in6_addr_bytes v6) = 16
   \<and> ipDict_of x (JString s) = getdns_util_create_ip x (Some (ToString x (JString s)))
   \<and> ipDict_of x (JArray (addr # JNumber p # rest)) =
       map_option (\<lambda>d. d @ [(''port'', t_int (word_of_int p))])
         (getdns_util_create_ip x (Some (ToString x addr)))"
proof (intro conjI)
  show "getdns_util_create_ip x None = None"
    by (simp add: getdns_util_create_ip_def)
  show "ipDict_of x (JString s) = getdns_util_create_ip x (Some (ToString x (JString s)))"
    by (simp add: ipDict_of_def)
  show "ipDict_of x (JArray (addr # JNumber p # rest)) =
       map_option (\<lambda>d. d @ [(''port'', t_int (word_of_int p))])
         (getdns_util_create_ip x (Some (ToString x addr)))"
    by (simp add: ipDict_of_def Get_def create_ip_cases getdns_dict_set_int_def
        split: option.split)
qed (rule create_ip_cases length_in_addr_bytes length_in6_addr_bytes)+

theorem endpoint_construction_witness:
  "getdns_util_create_ip sample (Some ''8.8.8.8'') =
     Some [(''address_type'', t_bindata (string_bytes ''IPv4'')),
           (''address_data'', t_bindata [8, 8, 8, 8])]
   \<and> getdns_util_create_ip sample (Some ''::1'') =
     Some [(''address_type'', t_bindata (string_bytes ''IPv6'')),
           (''address_data'', t_bindata [0, 0, 0, 0, 0, 0, 0, 0, 0, 0, 0, 0, 0, 0, 0, 1])]
   \<and> getdns_util_create_ip sample (Some ''not-an-ip'') = None
   \<and> ipDict_of sample (JArray [JString ''8.8.8.8'', JNumber 53]) =
     Some [(''address_type'', t_bindata (string_bytes ''IPv4'')),
           (''address_data'', t_bindata [8, 8, 8, 8]),
           (''port'', t_int 53)]"
  using endpoint_construction [of sample "''8.8.8.8''" 0 0 "''8.8.8.8''" "JString ''8.8.8.8''" 53 "[]"]
    endpoint_construction [of sample "''::1''" 0 0 "''''" JNull 0 "[]"]
    endpoint_construction [of sample "''not-an-ip''" 0 0 "''''" JNull 0 "[]"]
  by (simp add: sample_def sample_pton4_def sample_pton6_def in_addr_bytes_def
      in6_addr_bytes_def upt_rec)

subsection \<open>C9: rejection at issuance\<close>

text \<open>
  Claim C9: when the status of the issue call is not \<^verbatim>\<open>GETDNS_RETURN_GOOD\<close>, the
  method deletes the \<^verbatim>\<open>CallbackData\<close> and unreferences the context at once, then
  calls the host callback with the error object that carries that status, and
  returns undefined; when the status is good it returns the transaction identifier
  as a buffer of 8 bytes and releases nothing. For \<^verbatim>\<open>Lookup\<close> on a live context
  with a numeric second argument, and for \<^verbatim>\<open>HelperLookup\<close> on a live context,
  where a host name lookup of a text that is no address makes no request and counts
  as rejected with the generic error.
\<close>

theorem issuance_outcome:
  assumes "context_handle ctx = Some h"
  shows "(IsNumber (arg args 1) \<longrightarrow>
     (\<exists>call data.
        issue_of (snd (Lookup x ctx args)) = Some (call, data)
        \<and> callback data = arg args (int (length args) - 1)
        \<and> (if status x call \<noteq> GETDNS_RETURN_GOOD
           then fst (Lookup x ctx args) = JUndefined
              \<and> lifetime (snd (Lookup x ctx args)) =
                  [New_CallbackData data, Ref,
                   Delete_callback data, Unref, Delete_data data,
                   Call (callback data) [makeErrorObj ''Error issuing query'' (status x call)]]
           else fst (Lookup x ctx args) = JBuffer (uint64_bytes (transaction x call))
              \<and> length (uint64_bytes (transaction x call)) = 8
              \<and> lifetime (snd (Lookup x ctx args)) = [New_CallbackData data, Ref])))
   \<and> (\<exists>data r transId.
        callback data = arg args (int (length args) - 1)
        \<and> ((issue_of (snd (HelperLookup x funcType ctx args)) = None
              \<and> r = GETDNS_RETURN_GENERIC_ERROR) \<or>
           (\<exists>call. issue_of (snd (HelperLookup x funcType ctx args)) = Some (call, data)
              \<and> r = status x call \<and> transId = transaction x call))
        \<and> (if r \<noteq> GETDNS_RETURN_GOOD
           then fst (HelperLookup x funcType ctx args) = JUndefined
              \<and> lifetime (snd (HelperLookup x funcType ctx args)) =
                  [New_CallbackData data, Ref,
                   Delete_callback data, Unref, Delete_data data,
                   Call (callback data) [makeErrorObj ''Error issuing query'' r]]
           else fst (HelperLookup x funcType ctx args) = JBuffer (uint64_bytes transId)
              \<and> length (uint64_bytes transId) = 8
              \<and> lifetime (snd (HelperLookup x funcType ctx args)) = [New_CallbackData data, Ref]))"
proof (intro conjI impI)
  assume num: "IsNumber (arg args 1)"
  from assms num obtain ts name ext where L:
    "Lookup x ctx args =
       (let data = \<lparr>callback = arg args (int (length args) - 1)\<rparr>;
            call = getdns_general (Some h) name (ucast (Uint32Value (arg args 1))) ext data
        in if status x call \<noteq> GETDNS_RETURN_GOOD
           then (JUndefined,
                 map (case_prod Throw) ts @
                 [New_CallbackData data, Ref, Engine call,
                  Delete_callback data, Unref, Delete_data data,
                  Call (callback data) [makeErrorObj ''Error issuing query'' (status x call)]])
           else (JBuffer (uint64_bytes (transaction x call)),
                 map (case_prod Throw) ts @ [New_CallbackData data, Ref, Engine call]))"
    by (rule Lookup_issued)
  define data where "data = \<lparr>callback = arg args (int (length args) - 1)\<rparr>"
  define call where "call = getdns_general (Some h) name (ucast (Uint32Value (arg args 1))) ext data"
  have I: "issue_of (snd (Lookup x ctx args)) = Some (call, data)"
    by (simp add: L Let_def issue_of_Throws call_def data_def)
  have C: "callback data = arg args (int (length args) - 1)"
    by (simp add: data_def)
  have T: "if status x call \<noteq> GETDNS_RETURN_GOOD
           then fst (Lookup x ctx args) = JUndefined
              \<and> lifetime (snd (Lookup x ctx args)) =
                  [New_CallbackData data, Ref,
                   Delete_callback data, Unref, Delete_data data,
                   Call (callback data) [makeErrorObj ''Error issuing query'' (status x call)]]
           else fst (Lookup x ctx args) = JBuffer (uint64_bytes (transaction x call))
              \<and> length (uint64_bytes (transaction x call)) = 8
              \<and> lifetime (snd (Lookup x ctx args)) = [New_CallbackData data, Ref]"
    by (simp add: L Let_def lifetime_append lifetime_Throws length_uint64_bytes
        flip: call_def data_def)
  from I C T show "\<exists>call data.
        issue_of (snd (Lookup x ctx args)) = Some (call, data)
        \<and> callback data = arg args (int (length args) - 1)
        \<and> (if status x call \<noteq> GETDNS_RETURN_GOOD
           then fst (Lookup x ctx args) = JUndefined
              \<and> lifetime (snd (Lookup x ctx args)) =
                  [New_CallbackData data, Ref,
                   Delete_callback data, Unref, Delete_data data,
                   Call (callback data) [makeErrorObj ''Error issuing query'' (status x call)]]
           else fst (Lookup x ctx args) = JBuffer (uint64_bytes (transaction x call))
              \<and> length (uint64_bytes (transaction x call)) = 8
              \<and> lifetime (snd (Lookup x ctx args)) = [New_CallbackData data, Ref])"
    by blast
next
  from assms obtain ts issued r transId where H:
    "HelperLookup x funcType ctx args =
       (let data = \<lparr>callback = arg args (int (length args) - 1)\<rparr>
        in if r \<noteq> GETDNS_RETURN_GOOD
           then (JUndefined,
                 map (case_prod Throw) ts @ [New_CallbackData data, Ref] @ issued @
                 [Delete_callback data, Unref, Delete_data data,
                  Call (callback data) [makeErrorObj ''Error issuing query'' r]])
           else (JBuffer (uint64_bytes transId),
                 map (case_prod Throw) ts @ [New_CallbackData data, Ref] @ issued))"
    and D: "(issued = [] \<and> r = GETDNS_RETURN_GENERIC_ERROR) \<or>
         (\<exists>call. issued = [Engine call]
            \<and> user_arg call = Some \<lparr>callback = arg args (int (length args) - 1)\<rparr>
            \<and> r = status x call \<and> transId = transaction x call)"
    by (rule HelperLookup_issued [of ctx h x funcType args])
  define data where "data = \<lparr>callback = arg args (int (length args) - 1)\<rparr>"
  have C: "callback data = arg args (int (length args) - 1)"
    by (simp add: data_def)
  have F: "lifetime issued = []"
    using D by auto
  have I: "(issue_of (snd (HelperLookup x funcType ctx args)) = None
              \<and> r = GETDNS_RETURN_GENERIC_ERROR) \<or>
           (\<exists>call. issue_of (snd (HelperLookup x funcType ctx args)) = Some (call, data)
              \<and> r = status x call \<and> transId = transaction x call)"
    using D by (auto simp: H Let_def issue_of_Throws simp flip: data_def)
  have T: "if r \<noteq> GETDNS_RETURN_GOOD
           then fst (HelperLookup x funcType ctx args) = JUndefined
              \<and> lifetime (snd (HelperLookup x funcType ctx args)) =
                  [New_CallbackData data, Ref,
                   Delete_callback data, Unref, Delete_data data,
                   Call (callback data) [makeErrorObj ''Error issuing query'' r]]
           else fst (HelperLookup x funcType ctx args) = JBuffer (uint64_bytes transId)
              \<and> length (uint64_bytes transId) = 8
              \<and> lifetime (snd (HelperLookup x funcType ctx args)) = [New_CallbackData data, Ref]"
    by (simp add: H F Let_def lifetime_append lifetime_Throws length_uint64_bytes
        flip: data_def)
  from C I T show "\<exists>data r transId.
        callback data = arg args (int (length args) - 1)
        \<and> ((issue_of (snd (HelperLookup x funcType ctx args)) = None
              \<and> r = GETDNS_RETURN_GENERIC_ERROR) \<or>
           (\<exists>call. issue_of (snd (HelperLookup x funcType ctx args)) = Some (call, data)
              \<and> r = status x call \<and> transId = transaction x call))
        \<and> (if r \<noteq> GETDNS_RETURN_GOOD
           then fst (HelperLookup x funcType ctx args) = JUndefined
              \<and> lifetime (snd (HelperLookup x funcType ctx args)) =
                  [New_CallbackData data, Ref,
                   Delete_callback data, Unref, Delete_data data,
                   Call (callback data) [makeErrorObj ''Error issuing query'' r]]
           else fst (HelperLookup x funcType ctx args) = JBuffer (uint64_bytes transId)
              \<and> length (uint64_bytes transId) = 8
              \<and> lifetime (snd (HelperLookup x funcType ctx args)) = [New_CallbackData data, Ref])"
    by blast
qed

theorem issuance_outcome_witness:
  "fst (Lookup rejecting \<lparr>context_handle = Some 7\<rparr>
          [JString ''example.com'', JNumber 1, JFunction 0]) = JUndefined
   \<and> lifetime (snd (Lookup rejecting \<lparr>context_handle = Some 7\<rparr>
                       [JString ''example.com'', JNumber 1, JFunction 0])) =
     [New_CallbackData \<lparr>callback = JFunction 0\<rparr>, Ref,
      Delete_callback \<lparr>callback = JFunction 0\<rparr>, Unref, Delete_data \<lparr>callback = JFunction 0\<rparr>,
      Call (JFunction 0) [makeErrorObj ''Error issuing query'' 1]]
   \<and> fst (Lookup sample \<lparr>context_handle = Some 7\<rparr>
             [JString ''example.com'', JNumber 1, JFunction 0]) =
     JBuffer (uint64_bytes 0x0102030405060708)
   \<and> lifetime (snd (Lookup sample \<lparr>context_handle = Some 7\<rparr>
                       [JString ''example.com'', JNumber 1, JFunction 0])) =
     [New_CallbackData \<lparr>callback = JFunction 0\<rparr>, Ref]"
proof -
  let ?ctx = "\<lparr>context_handle = Some 7\<rparr>"
  let ?args = "[JString ''example.com'', JNumber 1, JFunction 0]"
  have h: "context_handle ?ctx = Some 7"
    by simp
  have n: "IsNumber (arg ?args 1)" and l: "arg ?args (int (length ?args) - 1) = JFunction 0"
    by (simp_all add: arg_def)
  from issuance_outcome [OF h, of ?args sample GNAddress] n
  obtain call data where
    "issue_of (snd (Lookup sample ?ctx ?args)) = Some (call, data)"
    and c: "callback data = arg ?args (int (length ?args) - 1)"
    and t: "if status sample call \<noteq> GETDNS_RETURN_GOOD
           then fst (Lookup sample ?ctx ?args) = JUndefined
              \<and> lifetime (snd (Lookup sample ?ctx ?args)) =
                  [New_CallbackData data, Ref,
                   Delete_callback data, Unref, Delete_data data,
                   Call (callback data) [makeErrorObj ''Error issuing query'' (status sample call)]]
           else fst (Lookup sample ?ctx ?args) = JBuffer (uint64_bytes (transaction sample call))
              \<and> length (uint64_bytes (transaction sample call)) = 8
              \<and> lifetime (snd (Lookup sample ?ctx ?args)) = [New_CallbackData data, Ref]"
    by blast
  from c l have d: "data = \<lparr>callback = JFunction 0\<rparr>"
    by (cases data) simp
  from t have accepted:
    "fst (Lookup sample ?ctx ?args) = JBuffer (uint64_bytes 0x0102030405060708)
     \<and> lifetime (snd (Lookup sample ?ctx ?args)) = [New_CallbackData \<lparr>callback = JFunction 0\<rparr>, Ref]"
    unfolding d by (simp add: sample_def)
  from issuance_outcome [OF h, of ?args rejecting GNAddress] n
  obtain call' data' where
    "issue_of (snd (Lookup rejecting ?ctx ?args)) = Some (call', data')"
    and c': "callback data' = arg ?args (int (length ?args) - 1)"
    and t': "if status rejecting call' \<noteq> GETDNS_RETURN_GOOD
           then fst (Lookup rejecting ?ctx ?args) = JUndefined
              \<and> lifetime (snd (Lookup rejecting ?ctx ?args)) =
                  [New_CallbackData data', Ref,
                   Delete_callback data', Unref, Delete_data data',
                   Call (callback data')
                     [makeErrorObj ''Error issuing query'' (status rejecting call')]]
           else fst (Lookup rejecting ?ctx ?args) =
                  JBuffer (uint64_bytes (transaction rejecting call'))
              \<and> length (uint64_bytes (transaction rejecting call')) = 8
              \<and> lifetime (snd (Lookup rejecting ?ctx ?args)) = [New_CallbackData data', Ref]"
    by blast
  from c' l have d': "data' = \<lparr>callback = JFunction 0\<rparr>"
    by (cases data') simp
  from t' have rejected:
    "fst (Lookup rejecting ?ctx ?args) = JUndefined
     \<and> lifetime (snd (Lookup rejecting ?ctx ?args)) =
        [New_CallbackData \<lparr>callback = JFunction 0\<rparr>, Ref,
         Delete_callback \<lparr>callback = JFunction 0\<rparr>, Unref, Delete_data \<lparr>callback = JFunction 0\<rparr>,
         Call (JFunction 0) [makeErrorObj ''Error issuing query'' 1]]"
    unfolding d' by (simp add: rejecting_def sample_def)
  from rejected accepted show ?thesis
    by simp
qed

subsection \<open>C10: the record type of a general query\<close>

text \<open>
  Claim C10: \<^verbatim>\<open>Lookup\<close> on a live context with a numeric second argument hands
  the engine, as the record type, the unsigned 32-bit value of the argument reduced
  modulo \<open>2 ^ 16\<close> (the 32-bit value of the Number \<open>n\<close> being \<open>n mod 2 ^ 32\<close>); the
  exceptions it schedules are those of the two argument checks, whatever the
  number: 65536 goes out as 0, and 0 goes out as 0 without an error.
\<close>

theorem query_type_truncated:
  assumes "context_handle ctx = Some h" and "IsNumber (arg args 1)"
  shows "map request_type (engine_calls (snd (Lookup x ctx args))) =
           [Some (ucast (Uint32Value (arg args 1)))]
     \<and> unat (ucast (Uint32Value (arg args 1)) :: 16 word) =
           unat (Uint32Value (arg args 1)) mod 2 ^ 16
     \<and> uint (Uint32Value (JNumber n)) = n mod 2 ^ 32
     \<and> thrown (snd (Lookup x ctx args)) =
           (if length args < 3 then [(TypeError, ''At least 3 arguments are required.'')] else []) @
           (if \<not> IsFunction (arg args (int (length args) - 1))
            then [(TypeError, ''Final argument must be a function.'')] else [])"
  using assms
  by (auto simp: Lookup_def Let_def engine_calls_append thrown_append unsigned_ucast_eq
      take_bit_eq_mod uint_word_of_int)

theorem query_type_truncated_witness:
  "map request_type (engine_calls (snd (Lookup sample \<lparr>context_handle = Some 7\<rparr>
       [JString ''example.com'', JNumber 65536, JFunction 0]))) = [Some 0]
   \<and> map request_type (engine_calls (snd (Lookup sample \<lparr>context_handle = Some 7\<rparr>
       [JString ''example.com'', JNumber 65537, JFunction 0]))) = [Some 1]
   \<and> map request_type (engine_calls (snd (Lookup sample \<lparr>context_handle = Some 7\<rparr>
       [JString ''example.com'', JNumber 0, JFunction 0]))) = [Some 0]
   \<and> thrown (snd (Lookup sample \<lparr>context_handle = Some 7\<rparr>
       [JString ''example.com'', JNumber 0, JFunction 0])) = []"
  using
    query_type_truncated [where ctx = "\<lparr>context_handle = Some 7\<rparr>" and h = 7
      and args = "[JString ''example.com'', JNumber 65536, JFunction 0]" and n = 0 and x = sample]
    query_type_truncated [where ctx = "\<lparr>context_handle = Some 7\<rparr>" and h = 7
      and args = "[JString ''example.com'', JNumber 65537, JFunction 0]" and n = 0 and x = sample]
    query_type_truncated [where ctx = "\<lparr>context_handle = Some 7\<rparr>" and h = 7
      and args = "[JString ''example.com'', JNumber 0, JFunction 0]" and n = 0 and x = sample]
  by (simp add: arg_def)

end
